theory Spec2Isabelle
  imports Complex_Main "HOL-Library.Log_Nat"
begin

section \<open>Python values and errors\<close>

text \<open>
  The values that travel through the dispatcher of \<^verbatim>\<open>NanoLocalManager\<close>: \<^verbatim>\<open>None\<close>,
  strings, lists of strings (node names) and pairs.
\<close>

datatype pyval =
    PNone
  | PStr string
  | PList "string list"
  | PTuple pyval pyval

text \<open>Truth value of a Python value, as \<^verbatim>\<open>if not payload\<close> tests it.\<close>

fun truthy :: "pyval \<Rightarrow> bool" where
  "truthy PNone = False"
| "truthy (PStr s) = (s \<noteq> [])"
| "truthy (PList xs) = (xs \<noteq> [])"
| "truthy (PTuple a b) = True"

text \<open>A command is an argument list (\<^verbatim>\<open>shell=False\<close>) or one shell string.\<close>

datatype cmd = CmdList "string list" | CmdStr string

text \<open>\<^verbatim>\<open>subprocess.CalledProcessError\<close> and \<^verbatim>\<open>subprocess.CompletedProcess\<close>.\<close>

record called_process_error =
  cpe_cmd :: cmd
  cpe_returncode :: int
  cpe_stdout :: string
  cpe_stderr :: string

record completed_process =
  cp_args :: cmd
  cp_returncode :: int
  cp_stdout :: string
  cp_stderr :: string

datatype error =
    CalledProcessError called_process_error
  | ValueError string
  | AttributeError string
  | TypeError string
  | KeyError string
  | ZeroDivisionError
  | OverflowError
  | OtherError string

section \<open>Strings and numbers as Python renders them\<close>

definition digit_char :: "nat \<Rightarrow> char" where
  "digit_char d = ''0123456789'' ! d"

function str_nat :: "nat \<Rightarrow> string" where
  "str_nat n = (if n < 10 then [digit_char n] else str_nat (n div 10) @ [digit_char (n mod 10)])"
  by pat_completeness auto
termination
  by (relation "measure id") auto

declare str_nat.simps [simp del]

text \<open>\<^verbatim>\<open>str(i)\<close> of an integer.\<close>

definition str_int :: "int \<Rightarrow> string" where
  "str_int i = (if i < 0 then ''-'' @ str_nat (nat (- i)) else str_nat (nat i))"

text \<open>\<^verbatim>\<open>{:<n}\<close> and \<^verbatim>\<open>{:>n}\<close>: padding with spaces, never truncating.\<close>

definition ljust :: "nat \<Rightarrow> string \<Rightarrow> string" where
  "ljust n s = s @ replicate (n - length s) CHR '' ''"

definition rjust :: "nat \<Rightarrow> string \<Rightarrow> string" where
  "rjust n s = replicate (n - length s) CHR '' '' @ s"

text \<open>\<^verbatim>\<open>s.split(" ")[0]\<close>: the text before the first space (all of it when there is none).\<close>

definition split_first :: "string \<Rightarrow> string" where
  "split_first s = takeWhile (\<lambda>c. c \<noteq> CHR '' '') s"

text \<open>\<^verbatim>\<open>sep.join(xs)\<close>.\<close>

fun join :: "string \<Rightarrow> string list \<Rightarrow> string" where
  "join sep [] = []"
| "join sep [x] = x"
| "join sep (x # y # ys) = x @ sep @ join sep (y # ys)"

text \<open>\<^verbatim>\<open>a in b\<close> on strings: \<open>a\<close> occurs in \<open>b\<close> as a contiguous substring.\<close>

fun is_prefix :: "string \<Rightarrow> string \<Rightarrow> bool" where
  "is_prefix [] ys = True"
| "is_prefix (x # xs) [] = False"
| "is_prefix (x # xs) (y # ys) = (x = y \<and> is_prefix xs ys)"

fun str_contains :: "string \<Rightarrow> string \<Rightarrow> bool" where
  "str_contains sub [] = (sub = [])"
| "str_contains sub (c # cs) = (is_prefix sub (c # cs) \<or> str_contains sub cs)"

text \<open>
  \<^verbatim>\<open>repr(s)\<close> of a string, which an f-string uses for the elements of a list and \<^verbatim>\<open>int\<close>
  for its error message: apostrophes around the text, or double quotes when the text
  has an apostrophe and no double quote; the quoting character and the backslash are
  escaped, tab, newline and carriage return are written \<^verbatim>\<open>\t\<close>, \<^verbatim>\<open>\n\<close>, \<^verbatim>\<open>\r\<close>, and every
  other control character is written \<^verbatim>\<open>\xNN\<close>. Strings are byte strings here: a byte
  from \<open>0x80\<close> on belongs to a character beyond ASCII and is kept.
\<close>

definition hex_char :: "nat \<Rightarrow> char" where
  "hex_char d = ''0123456789abcdef'' ! d"

definition repr_char :: "char \<Rightarrow> char \<Rightarrow> string" where
  "repr_char quote c =
     (let n = (of_char c :: nat)
      in if c = quote \<or> c = CHR 0x5C then [CHR 0x5C, c]
         else if c = CHR 0x09 then [CHR 0x5C, CHR ''t'']
         else if c = CHR 0x0A then [CHR 0x5C, CHR ''n'']
         else if c = CHR 0x0D then [CHR 0x5C, CHR ''r'']
         else if n < 32 \<or> n = 127 then [CHR 0x5C, CHR ''x'', hex_char (n div 16), hex_char (n mod 16)]
         else [c])"

definition repr_str :: "string \<Rightarrow> string" where
  "repr_str s =
     (let quote = (if CHR 0x27 \<in> set s \<and> CHR 0x22 \<notin> set s then CHR 0x22 else CHR 0x27)
      in [quote] @ concat (map (repr_char quote) s) @ [quote])"

text \<open>\<^verbatim>\<open>str\<close> of a list of strings, as an f-string renders it.\<close>

definition repr_list :: "string list \<Rightarrow> string" where
  "repr_list xs = ''['' @ join '', '' (map repr_str xs) @ '']''"

section \<open>Binary floating point\<close>

text \<open>
  Python's \<^verbatim>\<open>float\<close> is IEEE binary64. A finite float is modelled by the rational it
  denotes; every operation computes the exact rational result and rounds it to the
  nearest float, ties to the even significand. \<open>floor_log2 x\<close> is the binary exponent
  of a positive \<open>x\<close>: \<open>2 powi e \<le> x < 2 powi (e + 1)\<close>.
\<close>

definition floor_log2 :: "rat \<Rightarrow> int" where
  "floor_log2 x = (if 1 \<le> x then bitlen \<lfloor>x\<rfloor> - 1 else - bitlen (\<lceil>1 / x\<rceil> - 1))"

definition round_half_even :: "rat \<Rightarrow> int" where
  "round_half_even z =
     (let f = \<lfloor>z\<rfloor>; d = z - of_int f
      in if d < 1 / 2 then f else if 1 / 2 < d then f + 1 else if even f then f else f + 1)"

text \<open>
  The unit in the last place of the floats around \<open>x\<close>: 53 significant bits, and the
  fixed spacing \<open>2 powi (-1074)\<close> of the subnormal range below \<open>2 powi (-1022)\<close>.
\<close>

definition ulp :: "rat \<Rightarrow> rat" where
  "ulp x = 2 powi (max (floor_log2 \<bar>x\<bar>) (- 1022) - 52)"

text \<open>
  Rounding an exact result to a float. A result that rounds to \<open>2 ^ 1024\<close> or beyond has
  no finite float; the operations below say what Python does then.
\<close>

definition to_double :: "rat \<Rightarrow> rat option" where
  "to_double x =
     (if x = 0 then Some 0
      else let r = of_int (round_half_even (x / ulp x)) * ulp x
           in if 2 ^ 1024 \<le> \<bar>r\<bar> then None else Some r)"

text \<open>
  \<^verbatim>\<open>a / b\<close> on two \<^verbatim>\<open>int\<close>s: true division, correctly rounded; \<^verbatim>\<open>ZeroDivisionError\<close> for
  a zero divisor, \<^verbatim>\<open>OverflowError\<close> when the quotient is too large for a float.
\<close>

definition int_truediv :: "int \<Rightarrow> int \<Rightarrow> error + rat" where
  "int_truediv a b =
     (if b = 0 then Inl ZeroDivisionError
      else case to_double (of_int a / of_int b) of None \<Rightarrow> Inl OverflowError | Some r \<Rightarrow> Inr r)"

text \<open>
  \<^verbatim>\<open>floor(x * n)\<close> for a float \<open>x\<close> and an int \<open>n\<close> that is itself a float (as 10000 is): the
  product is rounded to a float, and \<^verbatim>\<open>math.floor\<close> gives the integer below it. A product
  beyond the float range is \<^verbatim>\<open>inf\<close>, on which \<^verbatim>\<open>floor\<close> raises \<^verbatim>\<open>OverflowError\<close>.
\<close>

definition floor_float_mul :: "rat \<Rightarrow> int \<Rightarrow> error + int" where
  "floor_float_mul x n =
     (case to_double (x * of_int n) of None \<Rightarrow> Inl OverflowError | Some y \<Rightarrow> Inr \<lfloor>y\<rfloor>)"

text \<open>
  \<^verbatim>\<open>'{:.2f}'.format(p)\<close>: the exact value of the float \<open>p\<close>, rounded to two decimals
  (ties to even), with a sign for a negative \<open>p\<close>.
\<close>

definition format_2f :: "rat \<Rightarrow> string" where
  "format_2f p =
     (let r = nat (round_half_even (\<bar>p\<bar> * 100))
      in (if p < 0 then ''-'' else []) @ str_nat (r div 100) @ ''.''
         @ [digit_char (r mod 100 div 10), digit_char (r mod 10)])"

section \<open>The external collaborators\<close>

text \<open>
  What the RPC collaborator returns: \<^verbatim>\<open>block_count()\<close> gives the two counts (decimal
  numerals, read with \<^verbatim>\<open>int\<close>), \<^verbatim>\<open>version()\<close> the vendor and the build information.
\<close>

record block_count =
  bc_count :: int
  bc_cemented :: int

text \<open>
  An answer of \<^verbatim>\<open>block_count()\<close>: \<^verbatim>\<open>None\<close>, an empty dictionary, or the two counts. The first
  two are falsy.
\<close>

datatype block_count_answer = AnswerNone | AnswerEmpty | AnswerCounts block_count

record version_info =
  node_vendor :: string
  build_info :: string

text \<open>
  Everything outside \<^verbatim>\<open>NanoLocalManager\<close> that its methods call, over a state \<open>'w\<close> of the
  outside world (containers, nodes, clock, files, log): the operating system
  (\<^verbatim>\<open>subprocess.run\<close> with \<^verbatim>\<open>check=True\<close>, which returns the completed process or raises, for
  a non-zero exit \<^verbatim>\<open>CalledProcessError\<close>), the configuration parser, the RPC client of a
  node, the clock, and the bootstrap and file helpers.
\<close>

record 'w env =
  subprocess_run :: "cmd \<Rightarrow> bool \<Rightarrow> string option \<Rightarrow> 'w \<Rightarrow> (error + completed_process) \<times> 'w"
  get_nodes_name :: "string list"
  compose_yml_path :: string
  project_name :: string
  nano_nodes_path :: string
  rpc_block_count :: "string \<Rightarrow> 'w \<Rightarrow> (error + block_count_answer) \<times> 'w"
  rpc_version :: "string \<Rightarrow> 'w \<Rightarrow> (error + version_info) \<times> 'w"
  rpc_post_with_auth :: "string \<Rightarrow> pyval \<Rightarrow> 'w \<Rightarrow> (error + string) \<times> 'w"
  get_node_name_from_rpc_url :: "string \<Rightarrow> string"
  json_dumps :: "string list \<Rightarrow> string"
  time_time :: "'w \<Rightarrow> rat"
  time_sleep :: "rat \<Rightarrow> 'w \<Rightarrow> 'w"
  create_compose_files :: "'w \<Rightarrow> (error + string) \<times> 'w"
  init_wallets_and_blocks :: "'w \<Rightarrow> (error + pyval) \<times> 'w"
  shutil_rmtree :: "string \<Rightarrow> 'w \<Rightarrow> (error + pyval) \<times> 'w"
  log_success :: "string \<Rightarrow> pyval \<Rightarrow> 'w \<Rightarrow> 'w"

section \<open>Process executor and auto-healer\<close>

subsection \<open>The two regular expressions of the heal functions\<close>

text \<open>
  Both heal functions search \<^verbatim>\<open>stderr\<close> with a pattern made of the error message
  followed by a group. In the messages only the full stop is a regular-expression
  operator: it matches any character but a newline. \<open>re_search\<close> is \<^verbatim>\<open>re.search\<close> for
  such a pattern: the leftmost position where message and group both match.
  \<^verbatim>\<open>\w\<close> is taken over ASCII.
\<close>

definition re_literal :: "string \<Rightarrow> char option list" where
  "re_literal msg = map (\<lambda>c. if c = CHR ''.'' then None else Some c) msg"

fun re_match_prefix :: "char option list \<Rightarrow> string \<Rightarrow> string option" where
  "re_match_prefix [] s = Some s"
| "re_match_prefix (p # ps) [] = None"
| "re_match_prefix (p # ps) (c # cs) =
     (if (case p of None \<Rightarrow> c \<noteq> CHR 0x0A | Some x \<Rightarrow> c = x) then re_match_prefix ps cs else None)"

fun re_search :: "char option list \<Rightarrow> (string \<Rightarrow> string option) \<Rightarrow> string \<Rightarrow> string option" where
  "re_search pat grp [] = Option.bind (re_match_prefix pat []) grp"
| "re_search pat grp (c # cs) =
     (case Option.bind (re_match_prefix pat (c # cs)) grp of
        Some g \<Rightarrow> Some g
      | None \<Rightarrow> re_search pat grp cs)"

definition is_word_char :: "char \<Rightarrow> bool" where
  "is_word_char c =
     (let n = (of_char c :: nat)
      in (48 \<le> n \<and> n \<le> 57) \<or> (65 \<le> n \<and> n \<le> 90) \<or> (97 \<le> n \<and> n \<le> 122) \<or> n = 95)"

text \<open>The group \<^verbatim>\<open>(\w+)\<close>.\<close>

definition word_group :: "string \<Rightarrow> string option" where
  "word_group s = (let w = takeWhile is_word_char s in if w = [] then None else Some w)"

text \<open>The group \<^verbatim>\<open>([^"]+)\<close> followed by the closing quotation mark.\<close>

definition quoted_group :: "string \<Rightarrow> string option" where
  "quoted_group s =
     (let g = takeWhile (\<lambda>c. c \<noteq> CHR 0x22) s
      in if g \<noteq> [] \<and> is_prefix [CHR 0x22] (drop (length g) s) then Some g else None)"

subsection \<open>Running a command and healing its failure\<close>

datatype heal_func = HealAddressInUse | HealDockerInUse

text \<open>The table \<^verbatim>\<open>healable_errors\<close>, in the order the dictionary is written and iterated.\<close>

definition healable_errors :: "(string \<times> string \<times> heal_func) list" where
  "healable_errors =
     [(''address_in_use'', ''programming external connectivity on endpoint'', HealAddressInUse),
      (''docker_in_use'', ''Error response from daemon: Conflict. The container name'',
       HealDockerInUse)]"

text \<open>
  \<^verbatim>\<open>_subprocess_capture_raise\<close> calls \<^verbatim>\<open>auto_heal\<close> on a failure, and \<^verbatim>\<open>auto_heal\<close> and the
  heal functions call \<^verbatim>\<open>_subprocess_capture_raise\<close> again, without a bound that the code
  can see. The model counts the nesting of these calls with fuel; \<open>None\<close> means that the
  fuel ran out before the call returned. Otherwise a result is the value returned or
  the exception raised, with the world after. The healer's methods take the executor
  they call (\<^verbatim>\<open>self._subprocess_capture_raise\<close>) as their first argument \<open>run_cmd\<close>. The log
  lines are left out.
\<close>

type_synonym 'w run_result = "((error + completed_process) \<times> 'w) option"

type_synonym 'w executor = "cmd \<Rightarrow> bool \<Rightarrow> string option \<Rightarrow> int \<Rightarrow> 'w \<Rightarrow> 'w run_result"

definition heal_address_in_use ::
    "'w executor \<Rightarrow> string \<Rightarrow> string \<Rightarrow> 'w \<Rightarrow> ((error + bool) \<times> 'w) option" where
  "heal_address_in_use run_cmd error_msg stderr w =
     (case re_search (re_literal error_msg @ [Some CHR '' '']) word_group stderr of
        None \<Rightarrow>
          Some (Inl (AttributeError ([CHR 0x27] @ ''NoneType'' @ [CHR 0x27]
                                     @ '' object has no attribute '' @ [CHR 0x27] @ ''group''
                                     @ [CHR 0x27])), w)
      | Some container_name \<Rightarrow>
          (case run_cmd (CmdStr (''docker stop -t 0 '' @ container_name
                                 @ '' && sleep 5 && docker start '' @ container_name))
                  True None 0 w of
             None \<Rightarrow> None
           | Some (Inl e, w') \<Rightarrow> Some (Inl e, w')
           | Some (Inr r, w') \<Rightarrow> Some (Inr True, w')))"

definition heal_docker_in_use ::
    "'w executor \<Rightarrow> string \<Rightarrow> string \<Rightarrow> 'w \<Rightarrow> ((error + bool) \<times> 'w) option" where
  "heal_docker_in_use run_cmd error_msg stderr w =
     (case re_search (re_literal error_msg @ [Some CHR '' '', Some CHR 0x22, Some CHR ''/''])
             quoted_group stderr of
        None \<Rightarrow> Some (Inr False, w)
      | Some container_name \<Rightarrow>
          (case run_cmd (CmdStr (''docker stop -t 0 '' @ container_name @ '' && docker rm ''
                                 @ container_name @ '' && sleep 5''))
                  True None 0 w of
             None \<Rightarrow> None
           | Some (Inl e, w') \<Rightarrow> Some (Inl e, w')
           | Some (Inr r, w') \<Rightarrow> Some (Inr True, w')))"

fun heal :: "heal_func \<Rightarrow> 'w executor \<Rightarrow> string \<Rightarrow> string \<Rightarrow> 'w \<Rightarrow> ((error + bool) \<times> 'w) option" where
  "heal HealAddressInUse = heal_address_in_use"
| "heal HealDockerInUse = heal_docker_in_use"

text \<open>
  The loop of \<^verbatim>\<open>auto_heal\<close> over the table: a rule whose message is not in \<^verbatim>\<open>stderr\<close> is
  skipped; a heal function that returns true ends the loop with the command issued
  again, one that returns false lets the loop go on; after the loop comes
  \<^verbatim>\<open>raise ValueError(error.stderr)\<close>.
\<close>

fun heal_loop ::
    "'w executor \<Rightarrow> (string \<times> string \<times> heal_func) list \<Rightarrow> called_process_error \<Rightarrow> bool
      \<Rightarrow> string option \<Rightarrow> int \<Rightarrow> 'w \<Rightarrow> 'w run_result" where
  "heal_loop run_cmd [] error cmd_shell cmd_cwd increment w =
     Some (Inl (ValueError (cpe_stderr error)), w)"
| "heal_loop run_cmd ((error_key, error_msg, heal_func) # rest) error cmd_shell cmd_cwd increment w =
     (if \<not> str_contains error_msg (cpe_stderr error)
      then heal_loop run_cmd rest error cmd_shell cmd_cwd increment w
      else case heal heal_func run_cmd error_msg (cpe_stderr error) w of
          None \<Rightarrow> None
        | Some (Inl e, w') \<Rightarrow> Some (Inl e, w')
        | Some (Inr True, w') \<Rightarrow> run_cmd (cpe_cmd error) cmd_shell cmd_cwd (increment + 1) w'
        | Some (Inr False, w') \<Rightarrow> heal_loop run_cmd rest error cmd_shell cmd_cwd increment w')"

definition auto_heal ::
    "'w executor \<Rightarrow> called_process_error \<Rightarrow> bool \<Rightarrow> string option \<Rightarrow> int \<Rightarrow> 'w \<Rightarrow> 'w run_result" where
  "auto_heal run_cmd error cmd_shell cmd_cwd increment w =
     (if increment \<ge> 10 then Some (Inl (CalledProcessError error), w)
      else heal_loop run_cmd healable_errors error cmd_shell cmd_cwd increment w)"

fun subprocess_capture_raise :: "'w env \<Rightarrow> nat \<Rightarrow> 'w executor" where
  "subprocess_capture_raise env 0 cmd shell cwd increment w = None"
| "subprocess_capture_raise env (Suc n) cmd shell cwd increment w =
     (case subprocess_run env cmd shell cwd w of
        (Inr result, w') \<Rightarrow> Some (Inr result, w')
      | (Inl (CalledProcessError e), w') \<Rightarrow>
          auto_heal (subprocess_capture_raise env n) e shell cwd increment w'
      | (Inl other, w') \<Rightarrow> Some (Inl other, w'))"

subsection \<open>Sequencing\<close>

text \<open>
  A method that may run external commands is a function from the world to its result:
  a value or an exception, with the world after, or \<open>None\<close> when the fuel of the
  executor ran out.
\<close>

type_synonym ('a, 'w) prog = "'w \<Rightarrow> ((error + 'a) \<times> 'w) option"

definition return_prog :: "'a \<Rightarrow> ('a, 'w) prog" where
  "return_prog a w = Some (Inr a, w)"

definition raise_prog :: "error \<Rightarrow> ('a, 'w) prog" where
  "raise_prog e w = Some (Inl e, w)"

definition bind_prog :: "('a, 'w) prog \<Rightarrow> ('a \<Rightarrow> ('b, 'w) prog) \<Rightarrow> ('b, 'w) prog" where
  "bind_prog m f w =
     (case m w of
        None \<Rightarrow> None
      | Some (Inl e, w') \<Rightarrow> Some (Inl e, w')
      | Some (Inr a, w') \<Rightarrow> f a w')"

text \<open>A call of a collaborator, which always returns.\<close>

definition call_ext :: "('w \<Rightarrow> (error + 'a) \<times> 'w) \<Rightarrow> ('a, 'w) prog" where
  "call_ext f w = Some (f w)"

text \<open>Sequencing of pure computations that may raise.\<close>

definition bind_err :: "error + 'a \<Rightarrow> ('a \<Rightarrow> error + 'b) \<Rightarrow> error + 'b" where
  "bind_err m f = (case m of Inl e \<Rightarrow> Inl e | Inr a \<Rightarrow> f a)"

section \<open>Orchestration client\<close>

text \<open>\<^verbatim>\<open>_run_docker_compose_command\<close>; \<^verbatim>\<open>if nodes:\<close> holds for a non-empty list.\<close>

definition run_docker_compose_command ::
    "'w env \<Rightarrow> nat \<Rightarrow> string list \<Rightarrow> string list option \<Rightarrow> (completed_process, 'w) prog" where
  "run_docker_compose_command env n command nodes =
     (let base_command =
            [''docker-compose'', ''-f'', compose_yml_path env, ''-p'', project_name env] @ command;
          base_command = (case nodes of None \<Rightarrow> base_command | Some ns \<Rightarrow> base_command @ ns)
      in subprocess_capture_raise env n (CmdList base_command) False None 0)"

section \<open>Status aggregator\<close>

subsection \<open>Which containers are online\<close>

text \<open>
  \<^verbatim>\<open>s.strip()\<close>: the white space of ASCII, which for Python includes the four separator
  characters \<open>0x1C\<close> to \<open>0x1F\<close>, is taken off both ends.
\<close>

definition is_space :: "char \<Rightarrow> bool" where
  "is_space c =
     (c \<in> set [CHR '' '', CHR 0x09, CHR 0x0A, CHR 0x0B, CHR 0x0C, CHR 0x0D,
                CHR 0x1C, CHR 0x1D, CHR 0x1E, CHR 0x1F])"

definition strip :: "string \<Rightarrow> string" where
  "strip s = rev (dropWhile is_space (rev (dropWhile is_space s)))"

text \<open>
  \<^verbatim>\<open>int(s)\<close> on a string: white space around an optional sign and decimal digits, where
  single underscores may stand between digits; anything else raises \<^verbatim>\<open>ValueError\<close>, whose
  message quotes the string. The digits are those of ASCII.
\<close>

definition digit_val :: "char \<Rightarrow> nat option" where
  "digit_val c =
     (let n = (of_char c :: nat) in if 48 \<le> n \<and> n \<le> 57 then Some (n - 48) else None)"

fun parse_digits :: "nat \<Rightarrow> string \<Rightarrow> nat option" where
  "parse_digits acc [] = Some acc"
| "parse_digits acc [c] = (case digit_val c of None \<Rightarrow> None | Some d \<Rightarrow> Some (10 * acc + d))"
| "parse_digits acc (c # c' # cs) =
     (if c = CHR ''_''
      then (case digit_val c' of None \<Rightarrow> None | Some d \<Rightarrow> parse_digits (10 * acc + d) cs)
      else (case digit_val c of None \<Rightarrow> None | Some d \<Rightarrow> parse_digits (10 * acc + d) (c' # cs)))"

definition int_of_str :: "string \<Rightarrow> error + int" where
  "int_of_str s =
     (let t = strip s;
          (neg, ds) = (case t of
                         c # cs \<Rightarrow> if c = CHR ''-'' then (True, cs)
                                   else if c = CHR ''+'' then (False, cs) else (False, t)
                       | [] \<Rightarrow> (False, t));
          invalid = Inl (ValueError (''invalid literal for int() with base 10: '' @ repr_str s))
      in case ds of
           [] \<Rightarrow> invalid
         | d # rest \<Rightarrow>
             if digit_val d = None then invalid
             else case parse_digits 0 ds of
                    None \<Rightarrow> invalid
                  | Some k \<Rightarrow> Inr (if neg then - int k else int k))"

text \<open>The loop of \<^verbatim>\<open>_online_containers\<close>, with the list built so far.\<close>

fun online_containers_loop ::
    "'w env \<Rightarrow> nat \<Rightarrow> string list \<Rightarrow> string list \<Rightarrow> (string list, 'w) prog" where
  "online_containers_loop env n online_containers [] w = return_prog online_containers w"
| "online_containers_loop env n online_containers (container # rest) w =
     bind_prog
       (subprocess_capture_raise env n
          (CmdStr (''docker ps |grep '' @ container @ ''$ | wc -l'')) True None 0)
       (\<lambda>res. case int_of_str (strip (cp_stdout res)) of
                 Inl e \<Rightarrow> raise_prog e
               | Inr online \<Rightarrow>
                   online_containers_loop env n
                     (if online = 1 then online_containers @ [container] else online_containers)
                     rest) w"

definition online_containers :: "'w env \<Rightarrow> nat \<Rightarrow> string list \<Rightarrow> (string list, 'w) prog" where
  "online_containers env n node_names = online_containers_loop env n [] node_names"

subsection \<open>Collecting the block counts\<close>

text \<open>One entry of \<^verbatim>\<open>nodes_block_count\<close>.\<close>

record node_metrics =
  node_name :: string
  count :: int
  cemented :: int
  version :: version_info

text \<open>
  The loop of \<^verbatim>\<open>_get_nodes_block_counts\<close> over the RPC clients of the nodes. Both RPC
  calls are made before \<^verbatim>\<open>block_count["count"]\<close> is read: \<^verbatim>\<open>None\<close> cannot be subscripted, and
  the empty dictionary has no such key.
\<close>

fun nodes_block_counts_loop ::
    "'w env \<Rightarrow> node_metrics list \<Rightarrow> string list \<Rightarrow> (node_metrics list, 'w) prog" where
  "nodes_block_counts_loop env nodes_block_count [] w = return_prog nodes_block_count w"
| "nodes_block_counts_loop env nodes_block_count (nano_rpc # rest) w =
     bind_prog (call_ext (rpc_block_count env nano_rpc))
       (\<lambda>block_count. bind_prog (call_ext (rpc_version env nano_rpc))
          (\<lambda>version_rpc_call.
             case block_count of
               AnswerNone \<Rightarrow>
                 raise_prog (TypeError ([CHR 0x27] @ ''NoneType'' @ [CHR 0x27]
                                        @ '' object is not subscriptable''))
             | AnswerEmpty \<Rightarrow> raise_prog (KeyError ''count'')
             | AnswerCounts bc \<Rightarrow>
                 nodes_block_counts_loop env
                   (nodes_block_count @
                      [\<lparr>node_name = get_node_name_from_rpc_url env nano_rpc,
                        count = bc_count bc, cemented = bc_cemented bc,
                        version = version_rpc_call\<rparr>])
                   rest)) w"

definition get_nodes_block_counts ::
    "'w env \<Rightarrow> string list option \<Rightarrow> (node_metrics list, 'w) prog" where
  "get_nodes_block_counts env nodes_name =
     nodes_block_counts_loop env []
       (case nodes_name of Some ns \<Rightarrow> ns | None \<Rightarrow> get_nodes_name env)"

subsection \<open>The report\<close>

text \<open>
  \<^verbatim>\<open>format_report_line\<close>: the sync percentage is
  \<^verbatim>\<open>floor(int(bc["cemented"]) / max_count * 10000) / 100\<close> in float arithmetic, rendered
  by \<^verbatim>\<open>{:>6.2f}\<close>.
\<close>

definition synced_percentage :: "int \<Rightarrow> int \<Rightarrow> error + rat" where
  "synced_percentage cem max_count =
     bind_err (int_truediv cem max_count) (\<lambda>q.
     bind_err (floor_float_mul q 10000) (\<lambda>k.
     int_truediv k 100))"

definition format_report_line :: "int \<Rightarrow> node_metrics \<Rightarrow> error + string" where
  "format_report_line max_count bc =
     (let node_version = node_vendor (version bc) @ '' '' @ split_first (build_info (version bc))
      in bind_err (synced_percentage (cemented bc) max_count) (\<lambda>p.
           Inr (ljust 16 (node_name bc) @ '' '' @ ljust 20 node_version @ '' ''
                @ rjust 6 (format_2f p) @ ''% synced | '' @ str_int (cemented bc) @ ''/''
                @ str_int (count bc) @ '' blocks cemented'')))"

text \<open>\<^verbatim>\<open>get_node_data\<close>: the first entry with the name, if any.\<close>

definition get_node_data :: "node_metrics list \<Rightarrow> string \<Rightarrow> node_metrics option" where
  "get_node_data nodes_block_count name = find (\<lambda>bc. node_name bc = name) nodes_block_count"

text \<open>\<^verbatim>\<open>max(int(bc["count"]) for bc in nodes_block_count)\<close> on a non-empty list.\<close>

fun max_list :: "int list \<Rightarrow> int" where
  "max_list [] = 0"
| "max_list [x] = x"
| "max_list (x # y # ys) = max x (max_list (y # ys))"

text \<open>The loop over the declared nodes, with the lines built so far.\<close>

fun report_loop :: "int \<Rightarrow> node_metrics list \<Rightarrow> string list \<Rightarrow> string list \<Rightarrow> error + string list" where
  "report_loop max_count nodes_block_count report [] = Inr report"
| "report_loop max_count nodes_block_count report (name # rest) =
     (case get_node_data nodes_block_count name of
        Some node_data \<Rightarrow>
          bind_err (format_report_line max_count node_data) (\<lambda>report_line.
            report_loop max_count nodes_block_count (report @ [report_line]) rest)
      | None \<Rightarrow>
          report_loop max_count nodes_block_count (report @ [name @ '' [down]'']) rest)"

text \<open>The lines of the report, before they are joined.\<close>

definition report_lines :: "string list \<Rightarrow> node_metrics list \<Rightarrow> error + string list" where
  "report_lines nodes nodes_block_count =
     report_loop (max_list (map count nodes_block_count)) nodes_block_count [] nodes"

definition generate_network_status_report :: "string list \<Rightarrow> node_metrics list \<Rightarrow> error + string" where
  "generate_network_status_report nodes nodes_block_count =
     (if nodes_block_count = [] then Inr ''''
      else bind_err (report_lines nodes nodes_block_count) (\<lambda>report.
             Inr ([CHR 0x0A] @ join [CHR 0x0A] report)))"

definition online_containers_status :: "string list \<Rightarrow> nat \<Rightarrow> string" where
  "online_containers_status online total_nodes =
     (let online_count = length online
      in if online_count = total_nodes
         then ''All '' @ str_nat online_count @ '' containers online''
         else str_nat online_count @ ''/'' @ str_nat total_nodes @ '' containers online'')"

text \<open>
  \<^verbatim>\<open>network_status\<close>; its parameter \<^verbatim>\<open>nodes_name\<close> is \<^verbatim>\<open>None\<close> or a list.
\<close>

definition network_status :: "'w env \<Rightarrow> nat \<Rightarrow> string list option \<Rightarrow> (string, 'w) prog" where
  "network_status env n nodes_name =
     (if nodes_name = Some [] then return_prog ''''
      else let nodes_name = get_nodes_name env
           in bind_prog (online_containers env n nodes_name) (\<lambda>online.
                let status_msg = online_containers_status online (length nodes_name)
                in bind_prog (get_nodes_block_counts env (Some online)) (\<lambda>nodes_block_count.
                     case generate_network_status_report nodes_name nodes_block_count of
                       Inl e \<Rightarrow> raise_prog e
                     | Inr report \<Rightarrow> return_prog (status_msg @ report))))"

section \<open>Readiness poller\<close>

text \<open>
  \<^verbatim>\<open>_is_rpc_available\<close>: one \<^verbatim>\<open>block_count\<close> call; any exception and any falsy answer
  mean that the node is not available.
\<close>

definition is_rpc_available :: "'w env \<Rightarrow> string \<Rightarrow> 'w \<Rightarrow> (string \<times> bool) \<times> 'w" where
  "is_rpc_available env container w =
     (case rpc_block_count env container w of
        (Inr (AnswerCounts bc), w') \<Rightarrow> ((container, True), w')
      | (Inr AnswerEmpty, w') \<Rightarrow> ((container, False), w')
      | (Inr AnswerNone, w') \<Rightarrow> ((container, False), w')
      | (Inl e, w') \<Rightarrow> ((container, False), w'))"

text \<open>
  \<^verbatim>\<open>get_unavailable_nodes\<close>: one probe for each node. The thread pool runs the probes
  side by side and gives the results in the order of the nodes; the model runs them
  one after the other in that order.
\<close>

fun get_unavailable_nodes :: "'w env \<Rightarrow> string list \<Rightarrow> 'w \<Rightarrow> string list \<times> 'w" where
  "get_unavailable_nodes env [] w = ([], w)"
| "get_unavailable_nodes env (node # rest) w =
     (case is_rpc_available env node w of
        ((container, available), w') \<Rightarrow>
          (case get_unavailable_nodes env rest w' of
             (unavailable, w'') \<Rightarrow>
               (if \<not> available then container # unavailable else unavailable, w'')))"

text \<open>
  The \<^verbatim>\<open>while\<close> loop of \<^verbatim>\<open>_wait_for_rpc_availability\<close>. Nothing in the code bounds the
  number of rounds but the clock, which belongs to the world; \<open>None\<close> is a loop that
  does not end.
\<close>

partial_function (option) wait_loop ::
    "'w env \<Rightarrow> bool \<Rightarrow> rat \<Rightarrow> rat \<Rightarrow> string list \<Rightarrow> 'w \<Rightarrow> ((error + unit) \<times> 'w) option" where
  "wait_loop env wait start_time max_timeout_s nodes_to_check w =
     (if length nodes_to_check > 0 then
        if \<not> wait then Some (Inr (), w)
        else case get_unavailable_nodes env nodes_to_check w of
          (nodes_to_check', w1) \<Rightarrow>
            if time_time env w1 - start_time > max_timeout_s
            then Some (Inl (ValueError (''TIMEOUT: RPCs not reachable for nodes ''
                                        @ repr_list nodes_to_check')), w1)
            else if length nodes_to_check' > 0
            then wait_loop env wait start_time max_timeout_s nodes_to_check' (time_sleep env 1 w1)
            else wait_loop env wait start_time max_timeout_s nodes_to_check' w1
      else Some (Inr (), w))"

declare wait_loop.simps [code]

text \<open>
  \<^verbatim>\<open>_wait_for_rpc_availability\<close>; \<^verbatim>\<open>if not nodes_name\<close> holds for \<^verbatim>\<open>None\<close> and for the empty
  list. The parameter \<^verbatim>\<open>timeout\<close> is handed to the probes, which do not use it.
\<close>

definition wait_for_rpc_availability ::
    "'w env \<Rightarrow> string list option \<Rightarrow> bool \<Rightarrow> rat \<Rightarrow> rat \<Rightarrow> (unit, 'w) prog" where
  "wait_for_rpc_availability env nodes_name wait timeout max_timeout_s w =
     (let start_time = time_time env w;
          nodes_name = (case nodes_name of
                          None \<Rightarrow> get_nodes_name env
                        | Some ns \<Rightarrow> if ns = [] then get_nodes_name env else ns)
      in wait_loop env wait start_time max_timeout_s nodes_name w)"

section \<open>The actions behind the commands\<close>

text \<open>
  Modelled from the spec: the decorator \<^verbatim>\<open>log_on_success\<close> is defined in
  \<^verbatim>\<open>internal/utils\<close>, which is not among the sources; the spec says of an action only that
  it is invoked. It is taken as a wrapper that keeps the signature of the method, calls
  it, reports a result to the logger (the collaborator \<open>log_success\<close>) and hands the
  result back; an exception passes through.
\<close>

definition log_on_success :: "'w env \<Rightarrow> string \<Rightarrow> (pyval, 'w) prog \<Rightarrow> (pyval, 'w) prog" where
  "log_on_success env name m =
     bind_prog m (\<lambda>result w. Some (Inr result, log_success env name result w))"

definition create_docker_compose_file :: "'w env \<Rightarrow> (pyval, 'w) prog" where
  "create_docker_compose_file env =
     log_on_success env ''create_docker_compose_file''
       (bind_prog (call_ext (create_compose_files env)) (\<lambda>services. return_prog (PStr services)))"

definition network_status_logged :: "'w env \<Rightarrow> nat \<Rightarrow> string list option \<Rightarrow> (pyval, 'w) prog" where
  "network_status_logged env n nodes_name =
     log_on_success env ''network_status''
       (bind_prog (network_status env n nodes_name) (\<lambda>report. return_prog (PStr report)))"

fun run_rpc_loop :: "'w env \<Rightarrow> pyval \<Rightarrow> string list \<Rightarrow> string list \<Rightarrow> (string list, 'w) prog" where
  "run_rpc_loop env payload responses [] w = return_prog responses w"
| "run_rpc_loop env payload responses (node # rest) w =
     bind_prog (call_ext (rpc_post_with_auth env node payload))
       (\<lambda>response. run_rpc_loop env payload (responses @ [response]) rest) w"

definition run_rpc :: "'w env \<Rightarrow> pyval \<Rightarrow> string list option \<Rightarrow> (pyval, 'w) prog" where
  "run_rpc env payload nodes =
     log_on_success env ''run_rpc''
       (bind_prog
          (run_rpc_loop env payload []
             (case nodes of None \<Rightarrow> get_nodes_name env | Some ns \<Rightarrow> ns))
          (\<lambda>responses. return_prog (PStr (json_dumps env responses))))"

definition rpc_validator :: "pyval \<Rightarrow> pyval \<Rightarrow> (pyval, 'w) prog" where
  "rpc_validator nodes payload =
     (if \<not> truthy payload
      then raise_prog (ValueError ''The --payload argument is required for the 'rpc' command.'')
      else return_prog (PTuple nodes payload))"

definition init_nodes :: "'w env \<Rightarrow> (pyval, 'w) prog" where
  "init_nodes env = log_on_success env ''init_nodes'' (call_ext (init_wallets_and_blocks env))"

definition stop_containers :: "'w env \<Rightarrow> nat \<Rightarrow> string list option \<Rightarrow> (pyval, 'w) prog" where
  "stop_containers env n nodes =
     log_on_success env ''stop_containers''
       (bind_prog (run_docker_compose_command env n [''stop''] nodes) (\<lambda>r. return_prog PNone))"

definition restart_containers :: "'w env \<Rightarrow> nat \<Rightarrow> string list option \<Rightarrow> (pyval, 'w) prog" where
  "restart_containers env n nodes =
     log_on_success env ''restart_containers''
       (bind_prog (run_docker_compose_command env n [''restart''] nodes) (\<lambda>r. return_prog PNone))"

definition start_containers :: "'w env \<Rightarrow> nat \<Rightarrow> string list option \<Rightarrow> (pyval, 'w) prog" where
  "start_containers env n nodes =
     log_on_success env ''start_containers''
       (bind_prog (run_docker_compose_command env n [''up'', ''-d''] nodes) (\<lambda>r.
        bind_prog (wait_for_rpc_availability env nodes True 10 15) (\<lambda>u. return_prog PNone)))"

definition remove_containers :: "'w env \<Rightarrow> nat \<Rightarrow> (pyval, 'w) prog" where
  "remove_containers env n =
     log_on_success env ''remove_containers''
       (bind_prog (run_docker_compose_command env n [''down''] None) (\<lambda>r. return_prog PNone))"

definition destroy :: "'w env \<Rightarrow> nat \<Rightarrow> bool \<Rightarrow> (pyval, 'w) prog" where
  "destroy env n remove_files =
     log_on_success env ''destroy''
       (bind_prog (remove_containers env n) (\<lambda>r.
          if remove_files then call_ext (shutil_rmtree env (nano_nodes_path env))
          else return_prog PNone))"

text \<open>
  The loop of \<^verbatim>\<open>reset_nodes_data\<close>. The call hands \<^verbatim>\<open>node_path\<close> over in the position of
  \<^verbatim>\<open>shell\<close>, where \<^verbatim>\<open>subprocess.run\<close> reads its truth value.
\<close>

fun reset_loop :: "'w env \<Rightarrow> nat \<Rightarrow> bool \<Rightarrow> string list \<Rightarrow> (unit, 'w) prog" where
  "reset_loop env n given [] w = return_prog () w"
| "reset_loop env n given (node # rest) w =
     (let node_path = (if given then nano_nodes_path env @ ''/'' @ node else nano_nodes_path env)
      in bind_prog
           (subprocess_capture_raise env n (CmdStr (''rm -f $(find . -name '' @ [CHR 0x22] @ ''*.ldb'' @ [CHR 0x22] @ '')''))
              (node_path \<noteq> []) None 0)
           (\<lambda>r. reset_loop env n given rest)) w"

definition reset_nodes_data :: "'w env \<Rightarrow> nat \<Rightarrow> string list option \<Rightarrow> (pyval, 'w) prog" where
  "reset_nodes_data env n nodes =
     log_on_success env ''reset_nodes_data''
       (bind_prog (stop_containers env n nodes) (\<lambda>r.
          let given = (case nodes of None \<Rightarrow> False | Some ns \<Rightarrow> ns \<noteq> []);
              nodes_to_process = (case nodes of None \<Rightarrow> [''.'']
                                  | Some ns \<Rightarrow> if ns = [] then [''.''] else ns)
          in bind_prog (reset_loop env n given nodes_to_process) (\<lambda>u. return_prog PNone)))"

section \<open>Command dispatcher\<close>

text \<open>
  A callable as the dispatcher sees it: the parameter names that \<^verbatim>\<open>inspect.signature\<close>
  reports, and what a call with keyword arguments does. A parameter that is not
  passed has its default, which is \<^verbatim>\<open>None\<close> for every parameter here.
\<close>

record 'w pyfunc =
  params :: "string list"
  call :: "(string \<times> pyval) list \<Rightarrow> (pyval, 'w) prog"

definition kwarg :: "(string \<times> pyval) list \<Rightarrow> string \<Rightarrow> pyval" where
  "kwarg kwargs name = (case map_of kwargs name of None \<Rightarrow> PNone | Some v \<Rightarrow> v)"

text \<open>
  A node selection is \<^verbatim>\<open>None\<close> or a list of names, as the methods annotate it; a value
  of another type is read as \<^verbatim>\<open>None\<close>.
\<close>

fun nodes_of :: "pyval \<Rightarrow> string list option" where
  "nodes_of (PList ns) = Some ns"
| "nodes_of v = None"

text \<open>
  \<^verbatim>\<open>func(**kwargs)\<close>: a keyword that the callable does not declare is a \<^verbatim>\<open>TypeError\<close>
  (whose message, which names the callable, is shortened here).
\<close>

definition py_call :: "'w pyfunc \<Rightarrow> (string \<times> pyval) list \<Rightarrow> (pyval, 'w) prog" where
  "py_call func kwargs =
     (if list_all (\<lambda>(k, v). k \<in> set (params func)) kwargs then call func kwargs
      else raise_prog (TypeError ''got an unexpected keyword argument''))"

text \<open>\<^verbatim>\<open>_initialize_command_mapping\<close>: command name, action and optional validator.\<close>

definition initialize_command_mapping ::
    "'w env \<Rightarrow> nat \<Rightarrow> (string \<times> 'w pyfunc \<times> 'w pyfunc option) list" where
  "initialize_command_mapping env n =
     [(''create'', \<lparr>params = [], call = (\<lambda>kw. create_docker_compose_file env)\<rparr>, None),
      (''start'', \<lparr>params = [''nodes''],
                   call = (\<lambda>kw. start_containers env n (nodes_of (kwarg kw ''nodes'')))\<rparr>, None),
      (''status'', \<lparr>params = [''nodes_name''],
                    call = (\<lambda>kw. network_status_logged env n (nodes_of (kwarg kw ''nodes_name'')))\<rparr>,
       None),
      (''restart'', \<lparr>params = [''nodes''],
                     call = (\<lambda>kw. restart_containers env n (nodes_of (kwarg kw ''nodes'')))\<rparr>, None),
      (''reset'', \<lparr>params = [''nodes''],
                   call = (\<lambda>kw. reset_nodes_data env n (nodes_of (kwarg kw ''nodes'')))\<rparr>, None),
      (''init'', \<lparr>params = [], call = (\<lambda>kw. init_nodes env)\<rparr>, None),
      (''stop'', \<lparr>params = [''nodes''],
                  call = (\<lambda>kw. stop_containers env n (nodes_of (kwarg kw ''nodes'')))\<rparr>, None),
      (''remove'', \<lparr>params = [], call = (\<lambda>kw. remove_containers env n)\<rparr>, None),
      (''down'', \<lparr>params = [], call = (\<lambda>kw. remove_containers env n)\<rparr>, None),
      (''destroy'', \<lparr>params = [], call = (\<lambda>kw. destroy env n True)\<rparr>, None),
      (''rpc'', \<lparr>params = [''payload'', ''nodes''],
                 call = (\<lambda>kw. run_rpc env (kwarg kw ''payload'') (nodes_of (kwarg kw ''nodes'')))\<rparr>,
       Some \<lparr>params = [''nodes'', ''payload''],
             call = (\<lambda>kw. rpc_validator (kwarg kw ''nodes'') (kwarg kw ''payload''))\<rparr>)]"

text \<open>\<^verbatim>\<open>_filter_args\<close>: the keyword arguments whose name is a parameter of the callable.\<close>

definition filter_args :: "'w pyfunc \<Rightarrow> (string \<times> pyval) list \<Rightarrow> (string \<times> pyval) list" where
  "filter_args func kwargs = filter (\<lambda>(k, v). k \<in> set (params func)) kwargs"

text \<open>
  Unpacking the validator's result into two names. A tuple of two unpacks; so does any
  other sequence of two elements (a string gives its two characters); \<^verbatim>\<open>None\<close> is not
  iterable.
\<close>

definition unpack_seq :: "pyval list \<Rightarrow> (pyval \<times> pyval, 'w) prog" where
  "unpack_seq xs =
     (case xs of
        [a, b] \<Rightarrow> return_prog (a, b)
      | _ \<Rightarrow>
          if length xs < 2
          then raise_prog (ValueError (''not enough values to unpack (expected 2, got ''
                                       @ str_nat (length xs) @ '')''))
          else raise_prog (ValueError ''too many values to unpack (expected 2)''))"

fun unpack_pair :: "pyval \<Rightarrow> (pyval \<times> pyval, 'w) prog" where
  "unpack_pair (PTuple a b) = return_prog (a, b)"
| "unpack_pair PNone = raise_prog (TypeError ''cannot unpack non-iterable NoneType object'')"
| "unpack_pair (PStr s) = unpack_seq (map (\<lambda>c. PStr [c]) s)"
| "unpack_pair (PList xs) = unpack_seq (map PStr xs)"

text \<open>
  \<^verbatim>\<open>execute_command\<close> on the manager's \<^verbatim>\<open>command_mapping\<close>. Its last statement calls the
  action; the method has no \<^verbatim>\<open>return\<close>, so a call that completes gives \<^verbatim>\<open>None\<close>.
\<close>

definition execute_command ::
    "(string \<times> 'w pyfunc \<times> 'w pyfunc option) list \<Rightarrow> string \<Rightarrow> pyval \<Rightarrow> pyval \<Rightarrow> (pyval, 'w) prog" where
  "execute_command command_mapping command nodes payload =
     (case map_of command_mapping command of
        None \<Rightarrow> raise_prog (ValueError (''Invalid command: '' @ command))
      | Some (command_func, validator_func) \<Rightarrow>
          bind_prog
            (case validator_func of
               Some validator \<Rightarrow>
                 bind_prog
                   (py_call validator
                      (filter_args validator [(''nodes'', nodes), (''payload'', payload)]))
                   unpack_pair
             | None \<Rightarrow> return_prog (nodes, payload))
            (\<lambda>(validated_nodes, validated_payload).
               bind_prog
                 (py_call command_func
                    (filter_args command_func
                       [(''nodes'', validated_nodes), (''payload'', validated_payload)]))
                 (\<lambda>result. return_prog PNone)))"

section \<open>A concrete network\<close>

text \<open>
  A network of two nodes whose world is the number of RPC calls made so far: every
  external command succeeds and prints \<open>1\<close>, every node answers \<^verbatim>\<open>block_count\<close> with 40
  of 100 blocks cemented, and the clock stands still.
\<close>

definition demo_env :: "nat env" where
  "demo_env =
     \<lparr>subprocess_run = (\<lambda>cmd shell cwd w.
         (Inr \<lparr>cp_args = cmd, cp_returncode = 0, cp_stdout = ''1'', cp_stderr = ''''\<rparr>, w)),
      get_nodes_name = [''nl_genesis'', ''nl_pr1''],
      compose_yml_path = ''nano_nodes/docker-compose.yml'',
      project_name = ''nano_local'',
      nano_nodes_path = ''nano_nodes'',
      rpc_block_count =
        (\<lambda>node w. (Inr (AnswerCounts \<lparr>bc_count = 100, bc_cemented = 40\<rparr>), Suc w)),
      rpc_version = (\<lambda>node w. (Inr \<lparr>node_vendor = ''Nano'', build_info = ''V25.1 a1b2''\<rparr>, w)),
      rpc_post_with_auth = (\<lambda>node payload w. (Inr ''{}'', Suc w)),
      get_node_name_from_rpc_url = (\<lambda>node. node),
      json_dumps = (\<lambda>responses. ''['' @ join '', '' responses @ '']''),
      time_time = (\<lambda>w. 0),
      time_sleep = (\<lambda>seconds w. w),
      create_compose_files = (\<lambda>w. (Inr ''nl_genesis'', w)),
      init_wallets_and_blocks = (\<lambda>w. (Inr PNone, w)),
      shutil_rmtree = (\<lambda>path w. (Inr PNone, w)),
      log_success = (\<lambda>name result w. w)\<rparr>"

text \<open>The same network with every container offline: \<^verbatim>\<open>wc -l\<close> prints \<open>0\<close>.\<close>

definition offline_env :: "nat env" where
  "offline_env = demo_env\<lparr>subprocess_run := (\<lambda>cmd shell cwd w.
     (Inr \<lparr>cp_args = cmd, cp_returncode = 0, cp_stdout = ''0'', cp_stderr = ''''\<rparr>, w))\<rparr>"

text \<open>Every external command fails, with a message that no heal rule knows.\<close>

definition no_heal_env :: "nat env" where
  "no_heal_env = demo_env\<lparr>subprocess_run := (\<lambda>cmd shell cwd w.
     (Inl (CalledProcessError \<lparr>cpe_cmd = cmd, cpe_returncode = 1, cpe_stdout = '''',
                                cpe_stderr = ''no such service: nl_pr9''\<rparr>), w))\<rparr>"

text \<open>
  A port of the node \<open>nl_genesis\<close> is held by a process outside the containers: every
  external command, the remediation \<^verbatim>\<open>docker stop ... && docker start ...\<close> included, fails
  with the message of the first heal rule.
\<close>

definition conflict_stderr :: string where
  "conflict_stderr = ''driver failed programming external connectivity on endpoint nl_genesis''"

definition conflict_env :: "nat env" where
  "conflict_env = demo_env\<lparr>subprocess_run := (\<lambda>cmd shell cwd w.
     (Inl (CalledProcessError \<lparr>cpe_cmd = cmd, cpe_returncode = 1, cpe_stdout = '''',
                                cpe_stderr = conflict_stderr\<rparr>), Suc w))\<rparr>"

text \<open>Every node answers, but an RPC call takes sixteen seconds of the clock.\<close>

definition slow_env :: "nat env" where
  "slow_env = demo_env\<lparr>time_time := (\<lambda>w. 16 * of_nat w)\<rparr>"

text \<open>Metrics of two reachable nodes that both report no block at all.\<close>

definition zero_metrics :: "node_metrics list" where
  "zero_metrics =
     [\<lparr>node_name = ''A'', count = 0, cemented = 0,
       version = \<lparr>node_vendor = ''Nano'', build_info = ''V25.1 a1b2''\<rparr>\<rparr>,
      \<lparr>node_name = ''C'', count = 0, cemented = 0,
       version = \<lparr>node_vendor = ''Nano'', build_info = ''V25.1 a1b2''\<rparr>\<rparr>]"

text \<open>
  The percentage in the words of the specification: \<open>floor(c / m * 10000) / 100\<close> in
  exact arithmetic, the truncation of the ratio to two decimals.
\<close>

definition spec_percentage :: "int \<Rightarrow> int \<Rightarrow> rat" where
  "spec_percentage c m = of_int \<lfloor>(of_int c :: rat) / of_int m * 10000\<rfloor> / 100"

text \<open>
  What the report says of a declared node: the formatted line of its metrics, or that
  it is down when it has none.
\<close>

definition line_of :: "int \<Rightarrow> node_metrics list \<Rightarrow> string \<Rightarrow> string \<Rightarrow> bool" where
  "line_of max_count nodes_block_count name line =
     (case get_node_data nodes_block_count name of
        None \<Rightarrow> line = name @ '' [down]''
      | Some node_data \<Rightarrow> format_report_line max_count node_data = Inr line)"

text \<open>
  The same network once more, with the log as its world: \<open>log_success\<close> appends the
  result it is given, and nothing else changes the world.
\<close>

definition report_env :: "pyval list env" where
  "report_env =
     \<lparr>subprocess_run = (\<lambda>cmd shell cwd w.
         (Inr \<lparr>cp_args = cmd, cp_returncode = 0, cp_stdout = ''1'', cp_stderr = ''''\<rparr>, w)),
      get_nodes_name = [''nl_genesis'', ''nl_pr1''],
      compose_yml_path = ''nano_nodes/docker-compose.yml'',
      project_name = ''nano_local'',
      nano_nodes_path = ''nano_nodes'',
      rpc_block_count =
        (\<lambda>node w. (Inr (AnswerCounts \<lparr>bc_count = 100, bc_cemented = 40\<rparr>), w)),
      rpc_version = (\<lambda>node w. (Inr \<lparr>node_vendor = ''Nano'', build_info = ''V25.1 a1b2''\<rparr>, w)),
      rpc_post_with_auth = (\<lambda>node payload w. (Inr ''{}'', w)),
      get_node_name_from_rpc_url = (\<lambda>node. node),
      json_dumps = (\<lambda>responses. ''['' @ join '', '' responses @ '']''),
      time_time = (\<lambda>w. 0),
      time_sleep = (\<lambda>seconds w. w),
      create_compose_files = (\<lambda>w. (Inr ''nl_genesis'', w)),
      init_wallets_and_blocks = (\<lambda>w. (Inr PNone, w)),
      shutil_rmtree = (\<lambda>path w. (Inr PNone, w)),
      log_success = (\<lambda>name result w. w @ [result])\<rparr>"

text \<open>The metrics that this network reports, and the lines of the report on them.\<close>

definition report_metrics :: "node_metrics list" where
  "report_metrics =
     [\<lparr>node_name = ''nl_genesis'', count = 100, cemented = 40,
       version = \<lparr>node_vendor = ''Nano'', build_info = ''V25.1 a1b2''\<rparr>\<rparr>,
      \<lparr>node_name = ''nl_pr1'', count = 100, cemented = 40,
       version = \<lparr>node_vendor = ''Nano'', build_info = ''V25.1 a1b2''\<rparr>\<rparr>]"

definition report_text :: string where
  "report_text =
     [CHR 0x0A] @ ''nl_genesis       Nano V25.1            40.00% synced | 40/100 blocks cemented''
     @ [CHR 0x0A] @ ''nl_pr1           Nano V25.1            40.00% synced | 40/100 blocks cemented''"

section \<open>Properties of the dispatcher\<close>

lemma bind_prog_return [simp]: "bind_prog (return_prog a) f = f a"
  by (rule ext) (simp add: bind_prog_def return_prog_def)

lemma bind_prog_raise [simp]: "bind_prog (raise_prog e) f = raise_prog e"
  by (rule ext) (simp add: bind_prog_def raise_prog_def)

text \<open>
  C1 (as amended). For every command registered in the command mapping, dispatching it
  has the outcome of the command's action, called with the caller's arguments filtered
  to the action's parameters, except for the value: if the action raises, so does
  \<^verbatim>\<open>execute_command\<close>; if the action returns, \<^verbatim>\<open>execute_command\<close> returns \<^verbatim>\<open>None\<close> and the value
  of the action is dropped; and \<^verbatim>\<open>execute_command\<close> does not return only if the action does
  not. Where the command has a validator, the validator runs first on its own filtered
  arguments: the pair it returns replaces the caller's arguments, what it raises is
  raised, and if it does not return, neither does \<^verbatim>\<open>execute_command\<close>.
\<close>

theorem execute_command_outcome:
  assumes "map_of command_mapping command = Some (command_func, validator_func)"
  shows "(validator_func = None \<longrightarrow>
            execute_command command_mapping command nodes payload w
              = map_option (apfst (map_sum id (\<lambda>result. PNone)))
                  (py_call command_func
                     (filter_args command_func [(''nodes'', nodes), (''payload'', payload)]) w))
         \<and> (\<forall>validator validated_nodes validated_payload w1.
               validator_func = Some validator
               \<and> py_call validator
                     (filter_args validator [(''nodes'', nodes), (''payload'', payload)]) w
                   = Some (Inr (PTuple validated_nodes validated_payload), w1)
               \<longrightarrow> execute_command command_mapping command nodes payload w
                     = map_option (apfst (map_sum id (\<lambda>result. PNone)))
                         (py_call command_func
                            (filter_args command_func
                               [(''nodes'', validated_nodes), (''payload'', validated_payload)]) w1))
         \<and> (\<forall>validator e w1.
               validator_func = Some validator
               \<and> py_call validator
                     (filter_args validator [(''nodes'', nodes), (''payload'', payload)]) w
                   = Some (Inl e, w1)
               \<longrightarrow> execute_command command_mapping command nodes payload w = Some (Inl e, w1))
         \<and> (\<forall>validator.
               validator_func = Some validator
               \<and> py_call validator
                     (filter_args validator [(''nodes'', nodes), (''payload'', payload)]) w = None
               \<longrightarrow> execute_command command_mapping command nodes payload w = None)
         \<and> (\<forall>r w'.
               execute_command command_mapping command nodes payload w = Some (Inr r, w')
               \<longrightarrow> r = PNone)"
  using assms
  by (auto simp: execute_command_def bind_prog_def return_prog_def
           split: option.splits sum.splits prod.splits)

theorem execute_command_outcome_witness:
  "execute_command (initialize_command_mapping demo_env 1) ''create'' (PList [''nl_pr1'']) PNone 0
     = Some (Inr PNone, 0)
   \<and> create_docker_compose_file demo_env 0 = Some (Inr (PStr ''nl_genesis''), 0)
   \<and> execute_command (initialize_command_mapping demo_env 1) ''rpc'' (PList [''nl_pr1''])
         (PStr ''{}'') 0 = Some (Inr PNone, 1)
   \<and> run_rpc demo_env (PStr ''{}'') (Some [''nl_pr1'']) 0 = Some (Inr (PStr ''[{}]''), 1)
   \<and> execute_command (initialize_command_mapping demo_env 1) ''rpc'' (PList [''nl_pr1'']) PNone 0
       = Some (Inl (ValueError (''The --payload argument is required for the ''
                                @ [CHR 0x27] @ ''rpc'' @ [CHR 0x27] @ '' command.'')), 0)"
proof -
  let ?create = "\<lparr>params = [], call = (\<lambda>kw. create_docker_compose_file demo_env)\<rparr>"
  let ?rpc = "\<lparr>params = [''payload'', ''nodes''],
               call = (\<lambda>kw. run_rpc demo_env (kwarg kw ''payload'') (nodes_of (kwarg kw ''nodes'')))\<rparr>"
  let ?val = "\<lparr>params = [''nodes'', ''payload''],
               call = (\<lambda>kw. rpc_validator (kwarg kw ''nodes'') (kwarg kw ''payload'')
                        :: (pyval, nat) prog)\<rparr>"
  have c: "map_of (initialize_command_mapping demo_env 1) ''create'' = Some (?create, None)"
    by (simp add: initialize_command_mapping_def)
  have r: "map_of (initialize_command_mapping demo_env 1) ''rpc'' = Some (?rpc, Some ?val)"
    by (simp add: initialize_command_mapping_def)
  have create: "create_docker_compose_file demo_env 0 = Some (Inr (PStr ''nl_genesis''), 0)"
    by (simp add: create_docker_compose_file_def log_on_success_def call_ext_def demo_env_def
          bind_prog_def return_prog_def)
  have rpc: "run_rpc demo_env (PStr ''{}'') (Some [''nl_pr1'']) 0 = Some (Inr (PStr ''[{}]''), 1)"
    by (simp add: run_rpc_def log_on_success_def call_ext_def demo_env_def
          bind_prog_def return_prog_def)
  have v1: "py_call ?val (filter_args ?val [(''nodes'', PList [''nl_pr1'']), (''payload'', PStr ''{}'')]) 0
              = Some (Inr (PTuple (PList [''nl_pr1'']) (PStr ''{}'')), 0)"
    by (simp add: py_call_def filter_args_def kwarg_def rpc_validator_def return_prog_def)
  have v2: "py_call ?val (filter_args ?val [(''nodes'', PList [''nl_pr1'']), (''payload'', PNone)]) 0
              = Some (Inl (ValueError (''The --payload argument is required for the ''
                                @ [CHR 0x27] @ ''rpc'' @ [CHR 0x27] @ '' command.'')), 0)"
    by (simp add: py_call_def filter_args_def kwarg_def rpc_validator_def raise_prog_def)
  from execute_command_outcome [OF c, of "PList [''nl_pr1'']" PNone 0] create
  have 1: "execute_command (initialize_command_mapping demo_env 1) ''create'' (PList [''nl_pr1''])
             PNone 0 = Some (Inr PNone, 0)"
    by (simp add: py_call_def filter_args_def)
  from execute_command_outcome [OF r, of "PList [''nl_pr1'']" "PStr ''{}''" 0] v1 rpc
  have 2: "execute_command (initialize_command_mapping demo_env 1) ''rpc'' (PList [''nl_pr1''])
             (PStr ''{}'') 0 = Some (Inr PNone, 1)"
    by (simp add: py_call_def filter_args_def kwarg_def)
  from execute_command_outcome [OF r, of "PList [''nl_pr1'']" PNone 0] v2
  have 3: "execute_command (initialize_command_mapping demo_env 1) ''rpc'' (PList [''nl_pr1''])
             PNone 0
       = Some (Inl (ValueError (''The --payload argument is required for the ''
                                @ [CHR 0x27] @ ''rpc'' @ [CHR 0x27] @ '' command.'')), 0)"
    by blast
  from 1 2 3 create rpc show ?thesis by simp
qed

text \<open>
  C1 as stated fails: on the concrete network the action of \<^verbatim>\<open>create\<close> returns the
  string \<open>nl_genesis\<close>, and \<^verbatim>\<open>execute_command\<close> returns \<^verbatim>\<open>None\<close>.
\<close>

theorem execute_command_drops_result_counterexample:
  "execute_command (initialize_command_mapping demo_env 1) ''create'' PNone PNone 0
     = Some (Inr PNone, 0)
   \<and> create_docker_compose_file demo_env 0 = Some (Inr (PStr ''nl_genesis''), 0)"
  by (simp add: initialize_command_mapping_def execute_command_def filter_args_def py_call_def
        create_docker_compose_file_def log_on_success_def call_ext_def demo_env_def
        bind_prog_def return_prog_def)

section \<open>Properties of the readiness poller\<close>

text \<open>
  C3 (as amended). With \<^verbatim>\<open>wait=False\<close> the poller returns at once, without an error and
  without a single probe: the world, which every probe passes through, is unchanged.
\<close>

theorem wait_false_returns_at_once:
  "wait_for_rpc_availability env nodes_name False timeout max_timeout_s w = Some (Inr (), w)"
  unfolding wait_for_rpc_availability_def Let_def
  by (subst wait_loop.simps) simp

text \<open>
  C3 as stated fails: on the concrete network, whose world counts the RPC calls, one
  probing round over two nodes makes two calls, and the poller with \<^verbatim>\<open>wait=False\<close> makes
  none.
\<close>

theorem wait_false_no_round_counterexample:
  "wait_for_rpc_availability demo_env (Some [''nl_genesis'', ''nl_pr1'']) False 10 15 0
     = Some (Inr (), 0)
   \<and> snd (get_unavailable_nodes demo_env [''nl_genesis'', ''nl_pr1''] 0) = 2"
  unfolding wait_for_rpc_availability_def Let_def
  by (subst wait_loop.simps) (simp add: demo_env_def is_rpc_available_def)

section \<open>Properties of the status aggregator\<close>

lemmas prog_eval = bind_prog_def return_prog_def raise_prog_def call_ext_def

text \<open>
  \<^verbatim>\<open>network_status\<close> called directly: with an explicitly empty list it returns the empty
  string at once and asks nothing of the world; with no list or with any non-empty list
  it does one and the same thing.
\<close>

lemma network_status_direct_call:
  "network_status env n (Some []) w = Some (Inr '''', w)
   \<and> (nodes_name \<noteq> Some [] \<longrightarrow> network_status env n nodes_name w = network_status env n None w)"
  by (simp add: network_status_def return_prog_def)

text \<open>With both containers offline, the two direct calls differ.\<close>

lemma network_status_direct_call_example:
  "network_status offline_env 1 (Some []) 0 = Some (Inr '''', 0)
   \<and> network_status offline_env 1 None 0 = Some (Inr ''0/2 containers online'', 0)"
  by (simp add: network_status_def online_containers_def offline_env_def demo_env_def prog_eval
      int_of_str_def strip_def is_space_def digit_val_def online_containers_status_def
      get_nodes_block_counts_def generate_network_status_report_def str_nat.simps digit_char_def
      Let_def)

section \<open>Properties of the process executor and the auto-healer\<close>

text \<open>At the ceiling of ten retries \<^verbatim>\<open>auto_heal\<close> raises the failure it was given.\<close>

lemma auto_heal_ceiling:
  "10 \<le> increment \<Longrightarrow>
   auto_heal run_cmd error cmd_shell cmd_cwd increment w = Some (Inl (CalledProcessError error), w)"
  by (simp add: auto_heal_def)

lemma heal_loop_no_match:
  "\<forall>(key, msg, hf) \<in> set rules. \<not> str_contains msg (cpe_stderr error) \<Longrightarrow>
   heal_loop run_cmd rules error cmd_shell cmd_cwd increment w
     = Some (Inl (ValueError (cpe_stderr error)), w)"
  by (induction rules) auto

text \<open>
  When an external command fails and its \<^verbatim>\<open>stderr\<close> contains none of the heal patterns,
  the executor raises, after this one process and with any fuel: below the retry
  ceiling a \<^verbatim>\<open>ValueError\<close> whose message is the \<^verbatim>\<open>stderr\<close> of the failure, and at the ceiling
  (ten or more) the \<^verbatim>\<open>CalledProcessError\<close> itself.
\<close>

lemma no_heal_pattern_error:
  assumes "subprocess_run env cmd shell cwd w = (Inl (CalledProcessError e), w')"
    and "\<forall>(key, msg, hf) \<in> set healable_errors. \<not> str_contains msg (cpe_stderr e)"
  shows "subprocess_capture_raise env (Suc n) cmd shell cwd increment w
           = Some (Inl (if 10 \<le> increment then CalledProcessError e
                        else ValueError (cpe_stderr e)), w')"
  using assms by (simp add: auto_heal_def heal_loop_no_match)

text \<open>
  C2, at the failing input. The command \<^verbatim>\<open>docker-compose up\<close> fails with a
  \<^verbatim>\<open>CalledProcessError\<close> whose \<^verbatim>\<open>stderr\<close> holds neither heal pattern, and the retry count
  is 0. What the executor raises is not this failure but a \<^verbatim>\<open>ValueError\<close> made from its
  \<^verbatim>\<open>stderr\<close>: an error of another type. (Python chains the failure to it as its context,
  which the model does not record.)
\<close>

theorem no_heal_pattern_value_error:
  "subprocess_run no_heal_env (CmdList [''docker-compose'', ''up'']) False None 0
     = (Inl (CalledProcessError \<lparr>cpe_cmd = CmdList [''docker-compose'', ''up''], cpe_returncode = 1,
                                  cpe_stdout = '''', cpe_stderr = ''no such service: nl_pr9''\<rparr>), 0)
   \<and> \<not> str_contains ''programming external connectivity on endpoint'' ''no such service: nl_pr9''
   \<and> \<not> str_contains ''Error response from daemon: Conflict. The container name''
         ''no such service: nl_pr9''
   \<and> subprocess_capture_raise no_heal_env 1 (CmdList [''docker-compose'', ''up'']) False None 0 0
       = Some (Inl (ValueError ''no such service: nl_pr9''), 0)"
  by (simp add: no_heal_env_def demo_env_def auto_heal_def healable_errors_def)

lemma conflict_search:
  "re_search (re_literal ''programming external connectivity on endpoint'' @ [Some CHR '' ''])
     word_group conflict_stderr = Some ''nl_genesis''"
  by (simp add: conflict_stderr_def re_literal_def word_group_def is_word_char_def)

lemma conflict_contains:
  "str_contains ''programming external connectivity on endpoint'' conflict_stderr"
  by (simp add: conflict_stderr_def)

text \<open>
  Where every command fails with the message of the first heal rule, the executor
  does not return below the ceiling, whatever the fuel: the remediation command is
  run with the retry count 0 again, fails, and is healed in its turn.
\<close>

lemma conflict_never_returns:
  "increment < 10 \<Longrightarrow> subprocess_capture_raise conflict_env n cmd shell cwd increment w = None"
proof (induction n arbitrary: cmd shell cwd increment w)
  case 0
  show ?case by simp
next
  case (Suc n)
  have run: "subprocess_run conflict_env cmd shell cwd w
      = (Inl (CalledProcessError \<lparr>cpe_cmd = cmd, cpe_returncode = 1, cpe_stdout = '''',
                                cpe_stderr = conflict_stderr\<rparr>), Suc w)"
    by (simp add: conflict_env_def demo_env_def)
  have "heal_address_in_use (subprocess_capture_raise conflict_env n)
          ''programming external connectivity on endpoint'' conflict_stderr (Suc w) = None"
    by (simp add: heal_address_in_use_def conflict_search Suc.IH)
  then show ?case using Suc.prems
    by (simp add: run auto_heal_def healable_errors_def conflict_contains)
qed

text \<open>
  C4, at the failing input. The command \<^verbatim>\<open>docker-compose ... up -d\<close> is issued with the
  retry count 0 in a world where a port of \<open>nl_genesis\<close> is held from outside. For
  every amount of fuel, that is for every depth of nested calls, the executor has not
  returned: the recursion between executor and healer goes on, and the ceiling of ten
  is never reached.
\<close>

theorem heal_recursion_unbounded:
  "subprocess_capture_raise conflict_env n
     (CmdList [''docker-compose'', ''-f'', ''nano_nodes/docker-compose.yml'', ''-p'', ''nano_local'',
               ''up'', ''-d'']) False None 0 0 = None"
  by (rule conflict_never_returns) simp

section \<open>The deadline of the readiness poller\<close>

text \<open>
  C7, at the failing input. One node is polled with \<^verbatim>\<open>wait=True\<close>; it answers the first
  probe, after sixteen seconds. The poller raises the timeout error, and the list of
  unreachable nodes in its message is empty.
\<close>

theorem poller_timeout_all_reachable:
  "wait_for_rpc_availability slow_env (Some [''nl_genesis'']) True 10 15 0
     = Some (Inl (ValueError ''TIMEOUT: RPCs not reachable for nodes []''), 1)"
  unfolding wait_for_rpc_availability_def Let_def
  by (subst wait_loop.simps)
     (simp add: slow_env_def demo_env_def is_rpc_available_def repr_list_def)

section \<open>The report on nodes without blocks\<close>

lemma format_report_line_zero: "format_report_line 0 bc = Inl ZeroDivisionError"
  by (simp add: format_report_line_def synced_percentage_def int_truediv_def bind_err_def Let_def)

lemma report_loop_zero:
  "\<exists>name \<in> set nodes. get_node_data nodes_block_count name \<noteq> None \<Longrightarrow>
   report_loop 0 nodes_block_count report nodes = Inl ZeroDivisionError"
proof (induction nodes arbitrary: report)
  case Nil
  then show ?case by simp
next
  case (Cons name rest)
  show ?case
  proof (cases "get_node_data nodes_block_count name")
    case None
    with Cons.prems have "\<exists>name \<in> set rest. get_node_data nodes_block_count name \<noteq> None"
      by auto
    with None Cons.IH show ?thesis by simp
  next
    case (Some node_data)
    then show ?thesis by (simp add: format_report_line_zero bind_err_def)
  qed
qed

lemma max_list_zero: "\<forall>x \<in> set xs. x = 0 \<Longrightarrow> max_list xs = 0"
  by (induction xs rule: max_list.induct) auto

lemma get_node_data_member:
  "bc \<in> set nodes_block_count \<Longrightarrow> get_node_data nodes_block_count (node_name bc) \<noteq> None"
  by (auto simp: get_node_data_def find_None_iff)

text \<open>
  C10. The metrics are those of reachable nodes among the declared ones, there is at
  least one entry, and no block count is negative. If every block count is 0, the
  report is not rendered: generating it raises \<^verbatim>\<open>ZeroDivisionError\<close>, the maximal count 0
  being the divisor of the percentage. So whenever a report is rendered, some reachable
  node has a positive block count.
\<close>

theorem zero_counts_division_by_zero:
  assumes "nodes_block_count \<noteq> []"
    and "\<forall>bc \<in> set nodes_block_count. node_name bc \<in> set nodes"
    and "\<forall>bc \<in> set nodes_block_count. 0 \<le> count bc"
  shows "((\<forall>bc \<in> set nodes_block_count. count bc = 0) \<longrightarrow>
            generate_network_status_report nodes nodes_block_count = Inl ZeroDivisionError)
         \<and> ((\<exists>r. generate_network_status_report nodes nodes_block_count = Inr r) \<longrightarrow>
              (\<exists>bc \<in> set nodes_block_count. 0 < count bc))"
proof -
  obtain bc where bc: "bc \<in> set nodes_block_count"
    using assms(1) by (cases nodes_block_count) auto
  with assms(2) have ex: "\<exists>name \<in> set nodes. get_node_data nodes_block_count name \<noteq> None"
    using get_node_data_member by blast
  have zero: "generate_network_status_report nodes nodes_block_count = Inl ZeroDivisionError"
    if "\<forall>bc \<in> set nodes_block_count. count bc = 0"
  proof -
    from that have "max_list (map count nodes_block_count) = 0"
      by (intro max_list_zero) auto
    with ex assms(1) show ?thesis
      by (simp add: generate_network_status_report_def report_lines_def report_loop_zero
            bind_err_def)
  qed
  have "\<exists>bc \<in> set nodes_block_count. 0 < count bc"
    if "generate_network_status_report nodes nodes_block_count = Inr r" for r
  proof (rule ccontr)
    assume "\<not> (\<exists>bc \<in> set nodes_block_count. 0 < count bc)"
    with assms(3) have "\<forall>bc \<in> set nodes_block_count. count bc = 0" by force
    from zero [OF this] that show False by simp
  qed
  with zero show ?thesis by blast
qed

theorem zero_counts_division_by_zero_witness:
  "zero_metrics \<noteq> []
   \<and> list_all (\<lambda>bc. node_name bc \<in> set [''A'', ''B'', ''C''] \<and> count bc = 0) zero_metrics
   \<and> generate_network_status_report [''A'', ''B'', ''C''] zero_metrics = Inl ZeroDivisionError"
proof -
  have h1: "zero_metrics \<noteq> []" by (simp add: zero_metrics_def)
  have h2: "\<forall>bc \<in> set zero_metrics. node_name bc \<in> set [''A'', ''B'', ''C'']"
    by (simp add: zero_metrics_def)
  have h3: "\<forall>bc \<in> set zero_metrics. 0 \<le> count bc" by (simp add: zero_metrics_def)
  have h4: "\<forall>bc \<in> set zero_metrics. count bc = 0" by (simp add: zero_metrics_def)
  have h5: "list_all (\<lambda>bc. node_name bc \<in> set [''A'', ''B'', ''C''] \<and> count bc = 0) zero_metrics"
    by (simp add: zero_metrics_def)
  from zero_counts_division_by_zero [OF h1 h2 h3] h1 h4 h5 show ?thesis by blast
qed

text \<open>
  C6, at the failing input. Of the declared nodes A, B and C only A is reachable, and
  it reports no block yet. No report of three lines is produced: the first line
  already raises \<^verbatim>\<open>ZeroDivisionError\<close>.
\<close>

theorem report_division_by_zero:
  "generate_network_status_report [''A'', ''B'', ''C'']
     [\<lparr>node_name = ''A'', count = 0, cemented = 0,
       version = \<lparr>node_vendor = ''Nano'', build_info = ''V25.1 a1b2''\<rparr>\<rparr>]
   = Inl ZeroDivisionError"
  by (simp add: generate_network_status_report_def report_lines_def get_node_data_def
      format_report_line_def synced_percentage_def int_truediv_def bind_err_def Let_def)

section \<open>Properties of the float arithmetic\<close>

lemma two_powi_pos [simp]: "0 < (2::rat) powi e"
  by (simp add: power_int_def)

text \<open>The binary exponent that \<open>floor_log2\<close> computes is the right one, and the only one.\<close>

lemma floor_log2_bounds:
  assumes "0 < x"
  shows "2 powi (floor_log2 x) \<le> x \<and> x < 2 powi (floor_log2 x + 1)"
proof (cases "1 \<le> x")
  case True
  define n where "n = \<lfloor>x\<rfloor>"
  have n1: "1 \<le> n" using True by (simp add: n_def le_floor_iff)
  then have bl: "1 \<le> bitlen n" using bitlen_eq_zero_iff [of n] bitlen_nonneg [of n] by linarith
  from bitlen_bounds [of n] n1
  have b: "2 ^ nat (bitlen n - 1) \<le> n" "n < 2 ^ nat (bitlen n)" by auto
  have fl: "floor_log2 x = bitlen n - 1" using True by (simp add: floor_log2_def n_def)
  have "(2::rat) powi (bitlen n - 1) = of_int (2 ^ nat (bitlen n - 1))"
    using bl by (simp add: power_int_def)
  also have "\<dots> \<le> of_int n" using b(1) by (simp only: of_int_le_iff)
  also have "\<dots> \<le> x" by (simp add: n_def)
  finally have lo: "2 powi (bitlen n - 1) \<le> x" .
  have "n + 1 \<le> 2 ^ nat (bitlen n)" using b(2) by simp
  then have "(of_int (n + 1) :: rat) \<le> of_int (2 ^ nat (bitlen n))" by (simp only: of_int_le_iff)
  moreover have "x < of_int (n + 1)" using floor_correct [of x] by (simp add: n_def)
  moreover have "(2::rat) powi (bitlen n) = of_int (2 ^ nat (bitlen n))"
    using bl by (simp add: power_int_def)
  ultimately have hi: "x < 2 powi (bitlen n - 1 + 1)" by simp
  from lo hi fl show ?thesis by simp
next
  case False
  define y where "y = 1 / x"
  define m where "m = \<lceil>y\<rceil> - 1"
  have y1: "1 < y" using False assms by (simp add: y_def)
  have m1: "1 \<le> m" using y1 by (simp add: m_def less_ceiling_iff)
  then have bl: "1 \<le> bitlen m" using bitlen_eq_zero_iff [of m] bitlen_nonneg [of m] by linarith
  from bitlen_bounds [of m] m1
  have b: "2 ^ nat (bitlen m - 1) \<le> m" "m < 2 ^ nat (bitlen m)" by auto
  have fl: "floor_log2 x = - bitlen m" using False by (simp add: floor_log2_def m_def y_def)
  have my: "of_int m < y" "y \<le> of_int (m + 1)"
    using ceiling_correct [of y] by (simp_all add: m_def)
  have "(2::rat) ^ nat (bitlen m - 1) = of_int (2 ^ nat (bitlen m - 1))" by simp
  also have "\<dots> \<le> of_int m" using b(1) by (simp only: of_int_le_iff)
  also have "\<dots> < y" by (rule my)
  finally have A: "(2::rat) ^ nat (bitlen m - 1) < y" .
  have "m + 1 \<le> 2 ^ nat (bitlen m)" using b(2) by simp
  then have "(of_int (m + 1) :: rat) \<le> of_int (2 ^ nat (bitlen m))" by (simp only: of_int_le_iff)
  with my(2) have B: "y \<le> 2 ^ nat (bitlen m)" by simp
  have lo: "2 powi (- bitlen m) \<le> x"
  proof -
    have "2 powi (- bitlen m) = 1 / (2::rat) ^ nat (bitlen m)"
      using bl by (simp add: power_int_def field_simps)
    also have "\<dots> \<le> 1 / y" using B y1 by (simp add: frac_le)
    also have "\<dots> = x" by (simp add: y_def)
    finally show ?thesis .
  qed
  have hi: "x < 2 powi (- bitlen m + 1)"
  proof -
    have "x = 1 / y" by (simp add: y_def)
    also have "\<dots> < 1 / (2::rat) ^ nat (bitlen m - 1)" using A by (simp add: frac_less2)
    also have "\<dots> = 2 powi (- bitlen m + 1)"
    proof -
      have "- bitlen m + 1 = - (bitlen m - 1)" by simp
      then show ?thesis using bl by (simp only: power_int_minus_divide) (simp add: power_int_def)
    qed
    finally show ?thesis .
  qed
  from lo hi fl show ?thesis by simp
qed

lemma floor_log2_unique:
  assumes "2 powi e \<le> x" "x < 2 powi (e + 1)"
  shows "floor_log2 x = e"
proof -
  have x: "0 < x" using assms(1) two_powi_pos [of e] by linarith
  from floor_log2_bounds [OF x]
  have f: "2 powi (floor_log2 x) \<le> x" "x < 2 powi (floor_log2 x + 1)" by auto
  have 1: "e < floor_log2 x + 1"
  proof (rule ccontr)
    assume "\<not> e < floor_log2 x + 1"
    then have "(2::rat) powi (floor_log2 x + 1) \<le> 2 powi e"
      by (intro power_int_increasing) auto
    with assms(1) f(2) show False by linarith
  qed
  have 2: "floor_log2 x < e + 1"
  proof (rule ccontr)
    assume "\<not> floor_log2 x < e + 1"
    then have "(2::rat) powi (e + 1) \<le> 2 powi (floor_log2 x)"
      by (intro power_int_increasing) auto
    with assms(2) f(1) show False by linarith
  qed
  from 1 2 show ?thesis by simp
qed


text \<open>Rounding to an integer moves a number by at most one half.\<close>

lemma round_half_even_error: "\<bar>of_int (round_half_even z) - z\<bar> \<le> 1 / 2"
  using floor_correct [of z] by (auto simp: round_half_even_def Let_def)

lemma round_half_even_unique:
  assumes "\<bar>z - of_int k\<bar> < 1 / 2"
  shows "round_half_even z = k"
proof -
  have "\<bar>(of_int (round_half_even z) :: rat) - of_int k\<bar> < 1"
    using round_half_even_error [of z] assms by linarith
  then have "\<bar>(of_int (round_half_even z - k) :: rat)\<bar> < 1" by simp
  then have "\<bar>round_half_even z - k\<bar> < 1"
    by (metis of_int_abs of_int_less_1_iff)
  then show ?thesis by simp
qed

text \<open>
  The float nearest to \<open>x\<close>, from its exponent \<open>e\<close> and its significand \<open>k\<close>: how a
  rounding is computed on concrete numbers.
\<close>

lemma to_double_eval:
  assumes "2 powi e \<le> \<bar>x\<bar>" "\<bar>x\<bar> < 2 powi (e + 1)" "- 1022 \<le> e"
    and "\<bar>x / 2 powi (e - 52) - of_int k\<bar> < 1 / 2"
    and "\<bar>(of_int k :: rat) * 2 powi (e - 52)\<bar> < 2 ^ 1024"
  shows "to_double x = Some (of_int k * 2 powi (e - 52))"
proof -
  have "0 < \<bar>x\<bar>" using assms(1) two_powi_pos [of e] by linarith
  then have x0: "x \<noteq> 0" by auto
  have fl: "floor_log2 \<bar>x\<bar> = e" using assms(1,2) by (rule floor_log2_unique)
  have u: "ulp x = 2 powi (e - 52)" using assms(3) by (simp add: ulp_def fl)
  have r: "round_half_even (x / 2 powi (e - 52)) = k"
    using assms(4) by (rule round_half_even_unique)
  have "\<not> 2 ^ 1024 \<le> \<bar>(of_int k :: rat) * 2 powi (e - 52)\<bar>" using assms(5) by simp
  then show ?thesis using x0 by (simp add: to_double_def Let_def u r)
qed

text \<open>In the normal range a rounding has a relative error of at most \<open>2 ^ - 53\<close>.\<close>

lemma to_double_rel_error:
  assumes "2 powi (- 1022) \<le> \<bar>x\<bar>" "\<bar>x\<bar> < 2 ^ 1023"
  shows "\<exists>r. to_double x = Some r \<and> \<bar>r - x\<bar> \<le> \<bar>x\<bar> / 2 ^ 53"
proof -
  define e where "e = floor_log2 \<bar>x\<bar>"
  have xpos: "0 < \<bar>x\<bar>" using assms(1) two_powi_pos [of "- 1022"] by linarith
  then have x0: "x \<noteq> 0" by auto
  from floor_log2_bounds [OF xpos]
  have b: "2 powi e \<le> \<bar>x\<bar>" "\<bar>x\<bar> < 2 powi (e + 1)" by (auto simp: e_def)
  have e_lo: "- 1022 \<le> e"
  proof (rule ccontr)
    assume "\<not> - 1022 \<le> e"
    then have "(2::rat) powi (e + 1) \<le> 2 powi (- 1022)" by (intro power_int_increasing) auto
    with assms(1) b(2) show False by linarith
  qed
  define u where "u = (2::rat) powi (e - 52)"
  have upos: "0 < u" by (simp add: u_def)
  have u: "ulp x = u" using e_lo by (simp add: ulp_def e_def [symmetric] u_def)
  define r where "r = of_int (round_half_even (x / u)) * u"
  have "\<bar>r - x\<bar> = \<bar>of_int (round_half_even (x / u)) - x / u\<bar> * u"
  proof -
    have "r - x = (of_int (round_half_even (x / u)) - x / u) * u"
      using upos by (simp add: r_def field_simps)
    then show ?thesis using upos by (simp add: abs_mult)
  qed
  also have "\<dots> \<le> 1 / 2 * u"
    using round_half_even_error [of "x / u"] upos by (intro mult_right_mono) auto
  also have "1 / 2 * u = 2 powi e / 2 ^ 53"
  proof -
    have "(2::rat) powi ((e - 52) + 52) = 2 powi (e - 52) * 2 powi 52"
      by (rule power_int_add) simp
    then have "(2::rat) powi e = 2 powi (e - 52) * 2 ^ 52" by simp
    then show ?thesis by (simp add: u_def)
  qed
  also have "\<dots> \<le> \<bar>x\<bar> / 2 ^ 53" using b(1) by (simp add: divide_right_mono)
  finally have err: "\<bar>r - x\<bar> \<le> \<bar>x\<bar> / 2 ^ 53" .
  have "\<bar>r\<bar> \<le> \<bar>x\<bar> + \<bar>x\<bar> / 2 ^ 53" using err by linarith
  also have "\<dots> \<le> \<bar>x\<bar> + \<bar>x\<bar>" by (simp add: field_simps)
  also have "\<dots> < 2 ^ 1024" using assms(2) by simp
  finally have "\<not> 2 ^ 1024 \<le> \<bar>r\<bar>" by simp
  then have "to_double x = Some r" using x0 by (simp add: to_double_def Let_def u r_def)
  with err show ?thesis by blast
qed


text \<open>The percentage of 57 cemented blocks out of 100, step by step.\<close>

lemma td_57_100: "to_double (57 / 100) = Some (5134103575202365 / 2 ^ 53)"
  using to_double_eval [of "- 1" "57 / 100" 5134103575202365] by simp

lemma td_5699: "to_double (5699 / 100) = Some (8020629461370143 / 2 ^ 47)"
  using to_double_eval [of 5 "5699 / 100" 8020629461370143] by simp

lemma floor_float_mul_eval:
  assumes "to_double (x * of_int n) = Some y" "of_int k \<le> y" "y < of_int k + 1"
  shows "floor_float_mul x n = Inr k"
proof -
  have "\<lfloor>y\<rfloor> = k" using assms(2,3) by (intro floor_unique) auto
  then show ?thesis by (simp add: floor_float_mul_def assms(1))
qed

lemma ffm_57: "floor_float_mul (5134103575202365 / 2 ^ 53) 10000 = Inr 5699"
proof -
  have "to_double (5134103575202365 / 2 ^ 53 * of_int 10000)
          = Some (of_int 6267216278323199 * 2 powi (12 - 52))"
    by (rule to_double_eval) simp_all
  then show ?thesis by (rule floor_float_mul_eval) simp_all
qed

lemma sp_57_100: "synced_percentage 57 100 = Inr (8020629461370143 / 2 ^ 47)"
proof -
  have a: "int_truediv 57 100 = Inr (5134103575202365 / 2 ^ 53)"
    by (simp add: int_truediv_def td_57_100)
  have c: "int_truediv 5699 100 = Inr (8020629461370143 / 2 ^ 47)"
    by (simp add: int_truediv_def td_5699)
  show ?thesis by (simp only: synced_percentage_def a ffm_57 c bind_err_def sum.case)
qed

lemma fmt_5699: "format_2f (8020629461370143 / 2 ^ 47) = ''56.99''"
proof -
  have "round_half_even (\<bar>8020629461370143 / 2 ^ 47\<bar> * 100) = 5699"
    by (rule round_half_even_unique) simp
  then show ?thesis by (simp add: format_2f_def Let_def str_nat.simps digit_char_def)
qed

section \<open>The sync percentage\<close>

lemma to_double_zero: "to_double 0 = Some 0"
  by (simp add: to_double_def)

lemma format_2f_hundredths:
  assumes "0 \<le> p" "\<bar>p * 100 - of_int k\<bar> < 1 / 2"
  shows "format_2f p = str_nat (nat k div 100) @ ''.''
           @ [digit_char (nat k mod 100 div 10), digit_char (nat k mod 10)]"
proof -
  have "round_half_even (\<bar>p\<bar> * 100) = k"
    using assms by (intro round_half_even_unique) simp
  then show ?thesis using assms(1) by (simp add: format_2f_def Let_def)
qed

lemma tiny_le: "(2::rat) powi (- 1022) \<le> 1 / 10 ^ 11"
proof -
  have "(2::rat) powi (- 1022) \<le> 2 powi (- 40)" by (intro power_int_increasing) auto
  also have "\<dots> \<le> 1 / 10 ^ 11" by simp
  finally show ?thesis .
qed

lemma int_truediv_hundredths:
  assumes "0 \<le> k" "k \<le> 10000"
  shows "\<exists>p. int_truediv k 100 = Inr p \<and> to_double (of_int k / 100) = Some p \<and> 0 \<le> p
             \<and> \<bar>p * 100 - of_int k\<bar> < 1 / 2"
proof (cases "k = 0")
  case True
  then show ?thesis by (simp add: int_truediv_def to_double_zero)
next
  case False
  define w :: rat where "w = of_int k / 100"
  have k1: "1 \<le> k" using False assms(1) by simp
  then have "(1::rat) \<le> of_int k" by simp
  then have w_lo: "1 / 100 \<le> w" by (simp add: w_def)
  have "(of_int k :: rat) \<le> 10000" using assms(2) by simp
  then have w_hi: "w \<le> 100" by (simp add: w_def)
  have "2 powi (- 1022) \<le> \<bar>w\<bar>"
    using tiny_le w_lo by simp
  moreover have "\<bar>w\<bar> < 2 ^ 1023" using w_lo w_hi by simp
  ultimately obtain p where p: "to_double w = Some p" "\<bar>p - w\<bar> \<le> \<bar>w\<bar> / 2 ^ 53"
    using to_double_rel_error by blast
  have wabs: "\<bar>w\<bar> = w" using w_lo by simp
  have e: "\<bar>p - w\<bar> \<le> 100 / 2 ^ 53" using p(2) w_hi wabs by (simp add: field_simps)
  have "(100::rat) / 2 ^ 53 \<le> 1 / 100" by simp
  with e w_lo have "0 \<le> p" by linarith
  moreover have "\<bar>p * 100 - of_int k\<bar> < 1 / 2"
  proof -
    have "p * 100 - of_int k = (p - w) * 100" by (simp add: w_def algebra_simps)
    then have "\<bar>p * 100 - of_int k\<bar> = \<bar>(p - w) * 100\<bar>" by (simp only:)
    also have "\<dots> = \<bar>p - w\<bar> * 100" by (subst abs_mult) simp
    also have "\<dots> \<le> 100 / 2 ^ 53 * 100" using e by (intro mult_right_mono) auto
    also have "\<dots> < 1 / 2" by simp
    finally show ?thesis .
  qed
  ultimately show ?thesis using p(1) by (simp add: int_truediv_def w_def)
qed


text \<open>
  The heart of the matter: the float product \<open>c / m * 10000\<close> lies within \<open>30000 / 2 ^ 53\<close>
  of the exact one, and the exact one is a multiple of \<open>1 / m\<close>; so the floor of the float
  product is the exact floor, or one less when the exact product is an integer that
  the float product falls short of.
\<close>

lemma quotient_floor:
  assumes "0 < c" "c \<le> m" "m \<le> 10 ^ 11"
  shows "\<exists>q k. int_truediv c m = Inr q \<and> floor_float_mul q 10000 = Inr k \<and> 0 \<le> k \<and> k \<le> 10000
               \<and> (k = (c * 10000) div m \<or> k = (c * 10000) div m - 1)"
proof -
  define x :: rat where "x = of_int c / of_int m"
  define K where "K = (c * 10000) div m"
  have mpos: "0 < m" using assms by simp
  then have mpos': "(0::rat) < of_int m" by simp
  have c1: "(1::rat) \<le> of_int c" using assms(1) by simp
  have "(of_int m :: rat) \<le> of_int (10 ^ 11)" using assms(3) by (simp only: of_int_le_iff)
  then have m_hi: "(of_int m :: rat) \<le> 10 ^ 11" by simp
  have inv_m: "1 / 10 ^ 11 \<le> 1 / (of_int m :: rat)"
    using m_hi mpos' by (simp add: frac_le)
  have "1 / of_int m \<le> x" using c1 mpos' by (simp add: x_def divide_right_mono)
  with inv_m have x_lo: "1 / 10 ^ 11 \<le> x" by linarith
  have "(of_int c :: rat) \<le> of_int m" using assms(2) by (simp only: of_int_le_iff)
  then have x_hi: "x \<le> 1" using mpos' by (simp add: x_def)
  have x_abs: "\<bar>x\<bar> = x" using x_lo by simp
  have "2 powi (- 1022) \<le> \<bar>x\<bar>" using tiny_le x_lo x_abs by linarith
  moreover have "\<bar>x\<bar> < 2 ^ 1023" using x_hi x_abs by simp
  ultimately obtain q where q: "to_double x = Some q" "\<bar>q - x\<bar> \<le> \<bar>x\<bar> / 2 ^ 53"
    using to_double_rel_error by blast
  have "x / 2 ^ 53 \<le> 1 / 2 ^ 53" using x_hi by (simp add: divide_right_mono)
  with q(2) x_abs have e1: "\<bar>q - x\<bar> \<le> 1 / 2 ^ 53" by linarith
  have "x / 2 ^ 53 \<le> x / 2" using x_lo by simp
  with q(2) x_abs have q_lo: "x / 2 \<le> q" by linarith
  define z where "z = q * 10000"
  have small: "(0::rat) \<le> 1 / 10 ^ 11" "(1::rat) / 2 ^ 53 \<le> 1" "(1::rat) / 10 ^ 11 \<le> 1"
    by simp_all
  have z_lo: "1 / 10 ^ 11 \<le> z" using q_lo x_lo small unfolding z_def by linarith
  have z_hi: "z \<le> 20000" using e1 x_hi small unfolding z_def by linarith
  have z_abs: "\<bar>z\<bar> = z" using z_lo by simp
  have "2 powi (- 1022) \<le> \<bar>z\<bar>" using tiny_le z_lo z_abs by linarith
  moreover have "\<bar>z\<bar> < 2 ^ 1023" using z_hi z_abs by simp
  ultimately obtain y where y: "to_double z = Some y" "\<bar>y - z\<bar> \<le> \<bar>z\<bar> / 2 ^ 53"
    using to_double_rel_error by blast
  have "z / 2 ^ 53 \<le> 20000 / 2 ^ 53" using z_hi by (simp add: divide_right_mono)
  with y(2) z_abs have e2: "\<bar>y - z\<bar> \<le> 20000 / 2 ^ 53" by linarith
  define t where "t = x * 10000"
  have "(20000::rat) / 2 ^ 53 + 10000 * (1 / 2 ^ 53) = 30000 / 2 ^ 53" by simp
  with e1 e2 have e3: "\<bar>y - t\<bar> \<le> 30000 / 2 ^ 53" unfolding z_def t_def by linarith
  have eps: "(30000::rat) / 2 ^ 53 < 1 / 10 ^ 11" by simp
  have t_eq: "t = of_int (c * 10000) / of_int m" by (simp add: t_def x_def)
  have dm: "c * 10000 = K * m + (c * 10000) mod m" by (simp add: K_def)
  have r_lo: "0 \<le> (c * 10000) mod m" and r_hi: "(c * 10000) mod m \<le> m - 1"
    using mpos by (simp_all add: pos_mod_bound [of m, THEN zless_imp_add1_zle])
  have "K * m \<le> c * 10000" using dm r_lo by linarith
  then have "(of_int (K * m) :: rat) \<le> of_int (c * 10000)" by (simp only: of_int_le_iff)
  then have tK_lo: "of_int K \<le> t" using mpos' by (simp add: t_eq pos_le_divide_eq)
  have "c * 10000 \<le> K * m + m - 1" using dm r_hi by linarith
  then have "(of_int (c * 10000) :: rat) \<le> of_int (K * m + m - 1)" by (simp only: of_int_le_iff)
  then have "t \<le> (of_int K * of_int m + of_int m - 1) / of_int m"
    using mpos' by (simp add: t_eq divide_right_mono)
  also have "\<dots> = of_int K + 1 - 1 / of_int m" using mpos' by (simp add: field_simps)
  finally have tK_hi: "t \<le> of_int K + 1 - 1 / of_int m" .
  have "y < of_int K + 1" using e3 eps tK_hi inv_m by linarith
  then have y_hi: "y < of_int (K + 1)" by simp
  have "of_int K - 1 \<le> y" using e3 eps tK_lo small by linarith
  then have y_lo: "of_int (K - 1) \<le> y" by simp
  have "z / 2 ^ 53 \<le> z" using z_lo small by (simp add: field_simps)
  with y(2) z_abs have y0: "0 \<le> y" by linarith
  define k where "k = \<lfloor>y\<rfloor>"
  have k_hi: "k \<le> K" using y_hi by (simp add: k_def floor_less_iff [symmetric] del: of_int_add)
  have k_lo: "K - 1 \<le> k" using y_lo by (simp add: k_def le_floor_iff del: of_int_diff)
  have k0: "0 \<le> k" using y0 by (simp add: k_def)
  have "t \<le> 10000" using x_hi by (simp add: t_def)
  with tK_lo have "(of_int K :: rat) \<le> of_int 10000" by simp
  then have "K \<le> 10000" by (simp only: of_int_le_iff)
  with k_hi have k_max: "k \<le> 10000" by simp
  have "int_truediv c m = Inr q" using mpos q(1) by (simp add: int_truediv_def x_def)
  moreover have "floor_float_mul q 10000 = Inr k"
    using y(1) by (simp add: floor_float_mul_def z_def k_def)
  moreover have "k = K \<or> k = K - 1" using k_hi k_lo by linarith
  ultimately show ?thesis using k0 k_max unfolding K_def by blast
qed


lemma spec_percentage_div: "spec_percentage c m = of_int (c * 10000 div m) / 100"
proof -
  have "(of_int c :: rat) / of_int m * 10000 = of_int (c * 10000) / of_int m" by simp
  then have "\<lfloor>(of_int c :: rat) / of_int m * 10000\<rfloor> = (c * 10000) div m"
    by (simp only: floor_divide_of_int_eq)
  then show ?thesis by (simp add: spec_percentage_def)
qed

lemma format_2f_exact:
  assumes "0 \<le> p" "\<bar>p * 100 - of_int k\<bar> < 1 / 2" "0 \<le> k"
  shows "format_2f p = format_2f (of_int k / 100)"
proof -
  have "format_2f (of_int k / 100) = str_nat (nat k div 100) @ ''.''
           @ [digit_char (nat k mod 100 div 10), digit_char (nat k mod 10)]"
    using assms(3) by (intro format_2f_hundredths) simp_all
  with format_2f_hundredths [OF assms(1,2)] show ?thesis by simp
qed

text \<open>
  C5 (as amended). For a cemented count \<open>c\<close> between 0 and a positive \<open>maxCount\<close> \<open>m\<close> of
  at most \<open>10 ^ 11\<close>, the percentage is computed without an error, it is the float nearest
  to \<open>k / 100\<close> for a number \<open>k\<close> of hundredths, it is rendered with exactly the two
  decimals of \<open>k / 100\<close>, and \<open>k / 100\<close> is the truncation \<open>floor(c / m * 10000) / 100\<close> of
  the specification or one hundredth less.
\<close>

theorem synced_percentage_truncation:
  assumes "0 \<le> c" "c \<le> m" "0 < m" "m \<le> 10 ^ 11"
  shows "\<exists>p k. synced_percentage c m = Inr p \<and> 0 \<le> k \<and> to_double (of_int k / 100) = Some p
             \<and> format_2f p = format_2f (of_int k / 100)
             \<and> (of_int k / 100 = spec_percentage c m
                 \<or> of_int k / 100 = spec_percentage c m - 1 / 100)"
proof (cases "c = 0")
  case True
  have "synced_percentage 0 m = Inr 0"
    using assms(3)
    by (simp add: synced_percentage_def int_truediv_def floor_float_mul_def bind_err_def
          to_double_zero)
  moreover have "to_double (of_int 0 / 100) = Some 0" by (simp add: to_double_zero)
  moreover have "spec_percentage 0 m = 0" by (simp add: spec_percentage_def)
  ultimately show ?thesis using True
    by (intro exI [of _ 0] exI [of _ "0::int"]) simp
next
  case False
  with assms(1) have "0 < c" by simp
  from quotient_floor [OF this assms(2,4)]
  obtain q k where qk: "int_truediv c m = Inr q" "floor_float_mul q 10000 = Inr k"
      "0 \<le> k" "k \<le> 10000" "k = (c * 10000) div m \<or> k = (c * 10000) div m - 1"
    by blast
  from int_truediv_hundredths [OF qk(3,4)]
  obtain p where p: "int_truediv k 100 = Inr p" "to_double (of_int k / 100) = Some p"
      "0 \<le> p" "\<bar>p * 100 - of_int k\<bar> < 1 / 2"
    by blast
  have sp: "synced_percentage c m = Inr p"
    by (simp add: synced_percentage_def bind_err_def qk(1,2) p(1))
  have fmt: "format_2f p = format_2f (of_int k / 100)"
    using p(3,4) qk(3) by (rule format_2f_exact)
  have "(of_int k :: rat) / 100 = spec_percentage c m
        \<or> (of_int k :: rat) / 100 = spec_percentage c m - 1 / 100"
    using qk(5) by (auto simp: spec_percentage_div diff_divide_distrib)
  with sp fmt p(2) qk(3) show ?thesis by blast
qed

theorem synced_percentage_truncation_witness:
  "\<exists>p k. synced_percentage 40 100 = Inr p \<and> 0 \<le> k \<and> to_double (of_int k / 100) = Some p
         \<and> format_2f p = format_2f (of_int k / 100)
         \<and> (of_int k / 100 = spec_percentage 40 100
             \<or> of_int k / 100 = spec_percentage 40 100 - 1 / 100)"
  using synced_percentage_truncation [of 40 100] by simp

text \<open>
  C5 as stated fails: for 57 cemented blocks and a maximal count of 100 the float
  product \<open>57 / 100 * 10000\<close> is just below 5700, so the percentage is rendered as
  \<open>56.99\<close>, and the truncation of the specification is \<open>57.00\<close>.
\<close>

theorem synced_percentage_counterexample:
  "synced_percentage 57 100 = Inr (8020629461370143 / 2 ^ 47)
   \<and> format_2f (8020629461370143 / 2 ^ 47) = ''56.99''
   \<and> spec_percentage 57 100 = 57
   \<and> format_2f (spec_percentage 57 100) = ''57.00''"
proof -
  have s: "spec_percentage 57 100 = 57" by (simp add: spec_percentage_div)
  have "round_half_even (\<bar>57\<bar> * 100) = 5700" by (rule round_half_even_unique) simp
  then have "format_2f 57 = ''57.00''"
    by (simp add: format_2f_def Let_def str_nat.simps digit_char_def)
  with s sp_57_100 fmt_5699 show ?thesis by simp
qed

text \<open>The three examples of C5 are rendered as C5 says.\<close>

lemma synced_percentage_eval:
  assumes "m \<noteq> 0" "to_double (of_int c / of_int m) = Some q"
    and "floor_float_mul q 10000 = Inr k" "to_double (of_int k / of_int 100) = Some p"
  shows "synced_percentage c m = Inr p"
  using assms by (simp add: synced_percentage_def int_truediv_def bind_err_def)

lemma example_40_100: "\<exists>p. synced_percentage 40 100 = Inr p \<and> format_2f p = ''40.00''"
proof -
  have q: "to_double (of_int 40 / of_int 100) = Some (of_int 7205759403792794 * 2 powi (- 2 - 52))"
    by (rule to_double_eval) simp_all
  have "to_double (of_int 7205759403792794 * 2 powi (- 2 - 52) * of_int 10000)
          = Some (of_int 8796093022208000 * 2 powi (11 - 52))"
    by (rule to_double_eval) simp_all
  then have k: "floor_float_mul (of_int 7205759403792794 * 2 powi (- 2 - 52)) 10000 = Inr 4000"
    by (rule floor_float_mul_eval) simp_all
  have p: "to_double (of_int 4000 / of_int 100) = Some (of_int 5629499534213120 * 2 powi (5 - 52))"
    by (rule to_double_eval) simp_all
  have "synced_percentage 40 100 = Inr (of_int 5629499534213120 * 2 powi (5 - 52))"
    using _ q k p by (rule synced_percentage_eval) simp
  moreover have "format_2f (of_int 5629499534213120 * 2 powi (5 - 52)) = ''40.00''"
    using format_2f_hundredths [of "of_int 5629499534213120 * 2 powi (5 - 52)" 4000]
    by (simp add: str_nat.simps digit_char_def)
  ultimately show ?thesis by blast
qed

lemma example_100_100: "\<exists>p. synced_percentage 100 100 = Inr p \<and> format_2f p = ''100.00''"
proof -
  have q: "to_double (of_int 100 / of_int 100) = Some (of_int 4503599627370496 * 2 powi (0 - 52))"
    by (rule to_double_eval) simp_all
  have "to_double (of_int 4503599627370496 * 2 powi (0 - 52) * of_int 10000)
          = Some (of_int 5497558138880000 * 2 powi (13 - 52))"
    by (rule to_double_eval) simp_all
  then have k: "floor_float_mul (of_int 4503599627370496 * 2 powi (0 - 52)) 10000 = Inr 10000"
    by (rule floor_float_mul_eval) simp_all
  have p: "to_double (of_int 10000 / of_int 100) = Some (of_int 7036874417766400 * 2 powi (6 - 52))"
    by (rule to_double_eval) simp_all
  have "synced_percentage 100 100 = Inr (of_int 7036874417766400 * 2 powi (6 - 52))"
    using _ q k p by (rule synced_percentage_eval) simp
  moreover have "format_2f (of_int 7036874417766400 * 2 powi (6 - 52)) = ''100.00''"
    using format_2f_hundredths [of "of_int 7036874417766400 * 2 powi (6 - 52)" 10000]
    by (simp add: str_nat.simps digit_char_def)
  ultimately show ?thesis by blast
qed

lemma example_33_100: "\<exists>p. synced_percentage 33 100 = Inr p \<and> format_2f p = ''33.00''"
proof -
  have q: "to_double (of_int 33 / of_int 100) = Some (of_int 5944751508129055 * 2 powi (- 2 - 52))"
    by (rule to_double_eval) simp_all
  have "to_double (of_int 5944751508129055 * 2 powi (- 2 - 52) * of_int 10000)
          = Some (of_int 7256776743321600 * 2 powi (11 - 52))"
    by (rule to_double_eval) simp_all
  then have k: "floor_float_mul (of_int 5944751508129055 * 2 powi (- 2 - 52)) 10000 = Inr 3300"
    by (rule floor_float_mul_eval) simp_all
  have p: "to_double (of_int 3300 / of_int 100) = Some (of_int 4644337115725824 * 2 powi (5 - 52))"
    by (rule to_double_eval) simp_all
  have "synced_percentage 33 100 = Inr (of_int 4644337115725824 * 2 powi (5 - 52))"
    using _ q k p by (rule synced_percentage_eval) simp
  moreover have "format_2f (of_int 4644337115725824 * 2 powi (5 - 52)) = ''33.00''"
    using format_2f_hundredths [of "of_int 4644337115725824 * 2 powi (5 - 52)" 3300]
    by (simp add: str_nat.simps digit_char_def)
  ultimately show ?thesis by blast
qed

section \<open>The shape of a rendered report\<close>

text \<open>
  Whenever a report is rendered, it has one line for each declared node, in the
  declared order: the formatted line of a node with metrics, and the line \<open>[down]\<close> of
  a node without.
\<close>

lemma report_loop_lines:
  "report_loop max_count nodes_block_count report nodes = Inr lines \<Longrightarrow>
   \<exists>ls. lines = report @ ls \<and> list_all2 (line_of max_count nodes_block_count) nodes ls"
proof (induction nodes arbitrary: report)
  case Nil
  then show ?case by simp
next
  case (Cons name rest)
  show ?case
  proof (cases "get_node_data nodes_block_count name")
    case None
    with Cons.prems have "report_loop max_count nodes_block_count (report @ [name @ '' [down]'']) rest
        = Inr lines" by simp
    from Cons.IH [OF this] obtain ls where
      "lines = (report @ [name @ '' [down]'']) @ ls"
      "list_all2 (line_of max_count nodes_block_count) rest ls" by blast
    moreover have "line_of max_count nodes_block_count name (name @ '' [down]'')"
      using None by (simp add: line_of_def)
    ultimately show ?thesis by simp
  next
    case (Some node_data)
    with Cons.prems obtain report_line where
      l: "format_report_line max_count node_data = Inr report_line"
      and r: "report_loop max_count nodes_block_count (report @ [report_line]) rest = Inr lines"
      by (auto simp: bind_err_def split: sum.splits)
    from Cons.IH [OF r] obtain ls where
      "lines = (report @ [report_line]) @ ls"
      "list_all2 (line_of max_count nodes_block_count) rest ls" by blast
    moreover have "line_of max_count nodes_block_count name report_line"
      using Some l by (simp add: line_of_def)
    ultimately show ?thesis by simp
  qed
qed

lemma report_one_line_per_node:
  assumes "nodes_block_count \<noteq> []"
    and "generate_network_status_report nodes nodes_block_count = Inr r"
  shows "\<exists>ls. r = [CHR 0x0A] @ join [CHR 0x0A] ls
              \<and> list_all2 (line_of (max_list (map count nodes_block_count)) nodes_block_count) nodes ls"
proof -
  from assms obtain lines where
    "report_lines nodes nodes_block_count = Inr lines" "r = [CHR 0x0A] @ join [CHR 0x0A] lines"
    by (auto simp: generate_network_status_report_def bind_err_def split: sum.splits)
  with report_loop_lines [of _ _ "[]"] show ?thesis
    by (fastforce simp: report_lines_def)
qed

section \<open>A round that ends after the deadline\<close>

text \<open>
  With \<^verbatim>\<open>wait=True\<close>, a round that ends after the deadline raises the timeout error,
  which names the nodes that did not answer in this round.
\<close>

lemma wait_loop_deadline:
  assumes "nodes_to_check \<noteq> []"
    and "get_unavailable_nodes env nodes_to_check w = (unreachable, w1)"
    and "time_time env w1 - start_time > max_timeout_s"
  shows "wait_loop env True start_time max_timeout_s nodes_to_check w
           = Some (Inl (ValueError (''TIMEOUT: RPCs not reachable for nodes ''
                                    @ repr_list unreachable)), w1)"
  using assms by (subst wait_loop.simps) simp

section \<open>The command status\<close>

lemma bind_prog_assoc:
  "bind_prog (bind_prog m f) g = bind_prog m (\<lambda>x. bind_prog (f x) g)"
  by (rule ext) (simp add: bind_prog_def split: option.splits prod.splits sum.splits)

text \<open>
  What the command \<^verbatim>\<open>status\<close> does, whatever the caller passes: it asks which containers
  of all configured nodes are online, collects the metrics of those, renders the report
  over all configured nodes, hands summary and report to the logger, and returns
  \<^verbatim>\<open>None\<close>.
\<close>

lemma status_command_outcome:
  "execute_command (initialize_command_mapping env n) ''status'' nodes payload =
     bind_prog (online_containers env n (get_nodes_name env)) (\<lambda>online.
     bind_prog (get_nodes_block_counts env (Some online)) (\<lambda>nodes_block_count.
       case generate_network_status_report (get_nodes_name env) nodes_block_count of
         Inl e \<Rightarrow> raise_prog e
       | Inr report \<Rightarrow>
           (\<lambda>w. Some (Inr PNone,
              log_success env ''network_status''
                (PStr (online_containers_status online (length (get_nodes_name env)) @ report)) w))))"
proof -
  have "execute_command (initialize_command_mapping env n) ''status'' nodes payload
          = bind_prog (network_status_logged env n None) (\<lambda>result. return_prog PNone)"
    by (simp add: initialize_command_mapping_def execute_command_def filter_args_def py_call_def
          kwarg_def)
  also have "\<dots> = bind_prog (online_containers env n (get_nodes_name env)) (\<lambda>online.
     bind_prog (get_nodes_block_counts env (Some online)) (\<lambda>nodes_block_count.
       case generate_network_status_report (get_nodes_name env) nodes_block_count of
         Inl e \<Rightarrow> raise_prog e
       | Inr report \<Rightarrow>
           (\<lambda>w. Some (Inr PNone,
              log_success env ''network_status''
                (PStr (online_containers_status online (length (get_nodes_name env)) @ report)) w))))"
    by (rule ext)
       (simp add: network_status_logged_def log_on_success_def network_status_def Let_def
          bind_prog_def return_prog_def raise_prog_def
          split: option.splits prod.splits sum.splits)
  finally show ?thesis .
qed


text \<open>The command on the network that keeps its log.\<close>

lemma replicate_numeral: "replicate (numeral k) x = x # replicate (pred_numeral k) x"
  by (simp add: numeral_eq_Suc)

lemma report_env_online:
  "online_containers report_env (Suc n) [''nl_genesis'', ''nl_pr1''] w
     = Some (Inr [''nl_genesis'', ''nl_pr1''], w)"
  by (simp add: online_containers_def report_env_def prog_eval int_of_str_def strip_def
        is_space_def digit_val_def Let_def)

lemma report_env_metrics:
  "get_nodes_block_counts report_env (Some [''nl_genesis'', ''nl_pr1'']) w
     = Some (Inr report_metrics, w)"
  by (simp add: get_nodes_block_counts_def report_env_def prog_eval report_metrics_def)

lemma report_env_line:
  "format_report_line 100
     \<lparr>node_name = name, count = 100, cemented = 40,
      version = \<lparr>node_vendor = ''Nano'', build_info = ''V25.1 a1b2''\<rparr>\<rparr>
   = Inr (ljust 16 name @ '' Nano V25.1            40.00% synced | 40/100 blocks cemented'')"
proof -
  from example_40_100 obtain p where "synced_percentage 40 100 = Inr p" "format_2f p = ''40.00''"
    by blast
  then show ?thesis
    by (simp add: format_report_line_def bind_err_def Let_def split_first_def ljust_def rjust_def
          str_int_def str_nat.simps digit_char_def replicate_numeral)
qed

lemma report_env_report:
  "generate_network_status_report [''nl_genesis'', ''nl_pr1''] report_metrics = Inr report_text"
  by (simp add: generate_network_status_report_def report_lines_def report_metrics_def
        get_node_data_def report_env_line bind_err_def ljust_def report_text_def replicate_numeral)


lemma report_env_nodes: "get_nodes_name report_env = [''nl_genesis'', ''nl_pr1'']"
  by (simp add: report_env_def)

lemma report_env_log: "log_success report_env name result w = w @ [result]"
  by (simp add: report_env_def)

lemma report_env_status:
  "execute_command (initialize_command_mapping report_env (Suc n)) ''status'' nodes payload []
     = Some (Inr PNone, [PStr (''All 2 containers online'' @ report_text)])"
  by (simp add: status_command_outcome report_env_nodes report_env_log
        bind_prog_def report_env_online report_env_metrics report_env_report
        online_containers_status_def str_nat.simps digit_char_def)

text \<open>
  C8. The status operation, that is the command \<^verbatim>\<open>status\<close> of the dispatcher, treats an
  explicitly empty node list and an absent one alike: the two calls are equal, and what
  they do is the report on all configured nodes, which, whenever there are metrics and
  it is rendered, has one line for each configured node in the configured order. (The
  guard of \<^verbatim>\<open>network_status\<close> for an empty list is never reached from the dispatcher, which
  does not forward the selection.)
\<close>

theorem status_empty_selection_like_absent:
  "execute_command (initialize_command_mapping env n) ''status'' (PList []) payload
     = execute_command (initialize_command_mapping env n) ''status'' PNone payload
   \<and> execute_command (initialize_command_mapping env n) ''status'' PNone payload
       = bind_prog (online_containers env n (get_nodes_name env)) (\<lambda>online.
         bind_prog (get_nodes_block_counts env (Some online)) (\<lambda>nodes_block_count.
           case generate_network_status_report (get_nodes_name env) nodes_block_count of
             Inl e \<Rightarrow> raise_prog e
           | Inr report \<Rightarrow>
               (\<lambda>w. Some (Inr PNone,
                  log_success env ''network_status''
                    (PStr (online_containers_status online (length (get_nodes_name env))
                           @ report)) w))))
   \<and> (\<forall>nodes_block_count report.
         nodes_block_count \<noteq> []
         \<and> generate_network_status_report (get_nodes_name env) nodes_block_count = Inr report
         \<longrightarrow> (\<exists>ls. report = [CHR 0x0A] @ join [CHR 0x0A] ls
                  \<and> list_all2 (line_of (max_list (map count nodes_block_count)) nodes_block_count)
                       (get_nodes_name env) ls))"
proof -
  have "\<forall>nodes_block_count report.
         nodes_block_count \<noteq> []
         \<and> generate_network_status_report (get_nodes_name env) nodes_block_count = Inr report
         \<longrightarrow> (\<exists>ls. report = [CHR 0x0A] @ join [CHR 0x0A] ls
                  \<and> list_all2 (line_of (max_list (map count nodes_block_count)) nodes_block_count)
                       (get_nodes_name env) ls)"
    using report_one_line_per_node by blast
  then show ?thesis by (simp add: status_command_outcome)
qed

theorem status_empty_selection_like_absent_witness:
  "execute_command (initialize_command_mapping report_env (Suc 0)) ''status'' (PList []) PNone []
     = execute_command (initialize_command_mapping report_env (Suc 0)) ''status'' PNone PNone []
   \<and> execute_command (initialize_command_mapping report_env (Suc 0)) ''status'' (PList []) PNone []
       = Some (Inr PNone, [PStr (''All 2 containers online'' @ report_text)])
   \<and> report_metrics \<noteq> []
   \<and> generate_network_status_report (get_nodes_name report_env) report_metrics = Inr report_text
   \<and> (\<exists>ls. report_text = [CHR 0x0A] @ join [CHR 0x0A] ls
            \<and> list_all2 (line_of (max_list (map count report_metrics)) report_metrics)
                 (get_nodes_name report_env) ls)"
proof -
  have h1: "report_metrics \<noteq> []" by (simp add: report_metrics_def)
  have h2: "generate_network_status_report (get_nodes_name report_env) report_metrics
              = Inr report_text"
    by (simp add: report_env_nodes report_env_report)
  from status_empty_selection_like_absent [of report_env "Suc 0" PNone] h1 h2
  have "execute_command (initialize_command_mapping report_env (Suc 0)) ''status'' (PList []) PNone
          = execute_command (initialize_command_mapping report_env (Suc 0)) ''status'' PNone PNone"
    and "\<exists>ls. report_text = [CHR 0x0A] @ join [CHR 0x0A] ls
            \<and> list_all2 (line_of (max_list (map count report_metrics)) report_metrics)
                 (get_nodes_name report_env) ls"
    by blast+
  with h1 h2 report_env_status [of 0 "PList []" PNone] show ?thesis by simp
qed

text \<open>
  C9. Whatever \<^verbatim>\<open>nodes\<close> and \<^verbatim>\<open>payload\<close> the caller passes with the command \<^verbatim>\<open>status\<close>,
  nothing is forwarded to the action: its only parameter is called \<^verbatim>\<open>nodes_name\<close>, so the
  argument filter leaves no keyword argument. The outcome does not depend on the
  caller's selection: it is the report on all configured nodes, which, whenever there
  are metrics and it is rendered, has one line for each configured node in the
  configured order.
\<close>

theorem status_nodes_never_forwarded:
  "\<exists>status_func.
     map_of (initialize_command_mapping env n) ''status'' = Some (status_func, None)
     \<and> params status_func = [''nodes_name'']
     \<and> filter_args status_func [(''nodes'', nodes), (''payload'', payload)] = []
     \<and> execute_command (initialize_command_mapping env n) ''status'' nodes payload
         = bind_prog (online_containers env n (get_nodes_name env)) (\<lambda>online.
           bind_prog (get_nodes_block_counts env (Some online)) (\<lambda>nodes_block_count.
             case generate_network_status_report (get_nodes_name env) nodes_block_count of
               Inl e \<Rightarrow> raise_prog e
             | Inr report \<Rightarrow>
                 (\<lambda>w. Some (Inr PNone,
                    log_success env ''network_status''
                      (PStr (online_containers_status online (length (get_nodes_name env))
                             @ report)) w))))
     \<and> (\<forall>nodes_block_count report.
           nodes_block_count \<noteq> []
           \<and> generate_network_status_report (get_nodes_name env) nodes_block_count = Inr report
           \<longrightarrow> (\<exists>ls. report = [CHR 0x0A] @ join [CHR 0x0A] ls
                    \<and> list_all2 (line_of (max_list (map count nodes_block_count)) nodes_block_count)
                         (get_nodes_name env) ls))"
proof -
  have "map_of (initialize_command_mapping env n) ''status''
          = Some (\<lparr>params = [''nodes_name''],
                   call = (\<lambda>kw. network_status_logged env n (nodes_of (kwarg kw ''nodes_name'')))\<rparr>,
                  None)"
    by (simp add: initialize_command_mapping_def)
  moreover have "filter_args \<lparr>params = [''nodes_name''],
                   call = (\<lambda>kw. network_status_logged env n (nodes_of (kwarg kw ''nodes_name'')))\<rparr>
                   [(''nodes'', nodes), (''payload'', payload)] = []"
    by (simp add: filter_args_def)
  moreover have "\<forall>nodes_block_count report.
         nodes_block_count \<noteq> []
         \<and> generate_network_status_report (get_nodes_name env) nodes_block_count = Inr report
         \<longrightarrow> (\<exists>ls. report = [CHR 0x0A] @ join [CHR 0x0A] ls
                  \<and> list_all2 (line_of (max_list (map count nodes_block_count)) nodes_block_count)
                       (get_nodes_name env) ls)"
    using report_one_line_per_node by blast
  ultimately show ?thesis
    using status_command_outcome [of env n nodes payload]
    by (intro exI [of _ "\<lparr>params = [''nodes_name''],
                   call = (\<lambda>kw. network_status_logged env n (nodes_of (kwarg kw ''nodes_name'')))\<rparr>"])
       simp
qed

theorem status_nodes_never_forwarded_witness:
  "execute_command (initialize_command_mapping report_env (Suc 0)) ''status'' (PList [''nl_pr1''])
       (PStr ''{}'') []
     = Some (Inr PNone, [PStr (''All 2 containers online'' @ report_text)])
   \<and> report_metrics \<noteq> []
   \<and> generate_network_status_report (get_nodes_name report_env) report_metrics = Inr report_text
   \<and> (\<exists>ls. report_text = [CHR 0x0A] @ join [CHR 0x0A] ls
            \<and> list_all2 (line_of (max_list (map count report_metrics)) report_metrics)
                 (get_nodes_name report_env) ls)"
proof -
  have h1: "report_metrics \<noteq> []" by (simp add: report_metrics_def)
  have h2: "generate_network_status_report (get_nodes_name report_env) report_metrics
              = Inr report_text"
    by (simp add: report_env_nodes report_env_report)
  from status_nodes_never_forwarded [of report_env "Suc 0" "PList [''nl_pr1'']" "PStr ''{}''"] h1 h2
  have "\<exists>ls. report_text = [CHR 0x0A] @ join [CHR 0x0A] ls
            \<and> list_all2 (line_of (max_list (map count report_metrics)) report_metrics)
                 (get_nodes_name report_env) ls"
    by blast
  with h1 h2 report_env_status [of 0 "PList [''nl_pr1'']" "PStr ''{}''"] show ?thesis by simp
qed

end
